theory Spec2Isabelle
  imports Main "HOL-Library.Char_ord" "HOL-Library.List_Lexorder"
begin

section \<open>JUnit HTML report: a shallow embedding of junit_html_report.py\<close>

text \<open>
  The module parses JUnit \<^verbatim>\<open>TEST-*.xml\<close> files into \<^verbatim>\<open>ReportTestSuite\<close> and
  \<^verbatim>\<open>ReportTestCase\<close> objects, sorts the suites, computes totals and renders one HTML file.
  Python exceptions are values of \<open>error\<close>; a function that can raise returns
  \<open>error + 'a\<close> with \<open>Inl\<close> the exception.
\<close>

subsection \<open>Exceptions\<close>

datatype error =
    ParseError            \<comment> \<open>xml.etree.ElementTree.ParseError: the file is not well-formed XML\<close>
  | IOError               \<comment> \<open>open() of a file failed\<close>
  | KeyError string       \<comment> \<open>\<^verbatim>\<open>attrib[k]\<close> with k absent\<close>
  | ValueError            \<comment> \<open>int() or float() of a string that is not a number\<close>
  | OverflowError         \<comment> \<open>an int too large to convert to float\<close>
  | ZeroDivisionError     \<comment> \<open>float division by zero\<close>
  | AttributeError        \<comment> \<open>a method looked up on an object that does not have it\<close>
  | RenderError           \<comment> \<open>any exception of the template renderer\<close>

subsection \<open>Python floats (IEEE 754 binary64)\<close>

text \<open>
  A finite double is a sign bit and a magnitude \<open>num / 2 ^ dexp\<close> (the pair is not
  normalised; only the value matters). Arithmetic results are rounded to the nearest
  double, ties to even, with gradual underflow below \<open>2 ^ -1022\<close> and overflow to an
  infinity from \<open>2 ^ 1024\<close> on.
\<close>

datatype pyfloat =
    Finite bool nat nat   \<comment> \<open>sign (True is negative), num, dexp\<close>
  | Infinity bool
  | NaN

fun bitlen :: "nat \<Rightarrow> nat" where
  "bitlen n = (if n = 0 then 0 else Suc (bitlen (n div 2)))"

text \<open>Round half to even of the quotient \<open>P / Q\<close> to a natural number.\<close>

definition round_half_even :: "nat \<Rightarrow> nat \<Rightarrow> nat" where
  "round_half_even P Q =
     (let m0 = P div Q; r = P mod Q
      in if 2 * r > Q \<or> (2 * r = Q \<and> odd m0) then m0 + 1 else m0)"

text \<open>
  The binary exponent \<open>e\<close> of the last place of the double nearest to \<open>p / q\<close>
  (\<open>p, q > 0\<close>): the one with \<open>2 ^ 52 \<le> p / q / 2 ^ e < 2 ^ 53\<close>, but at least
  \<open>-1074\<close> (subnormal numbers).
\<close>

definition ulp_exponent :: "nat \<Rightarrow> nat \<Rightarrow> int" where
  "ulp_exponent p q =
     (let e0 = int (bitlen p) - int (bitlen q) - 53;
          e1 = (if (p * 2 ^ nat (- e0)) div (q * 2 ^ nat e0) \<ge> 2 ^ 53 then e0 + 1 else e0)
      in max e1 (- 1074))"

text \<open>
  The magnitude \<open>(num, dexp)\<close> of the double nearest to the positive rational \<open>p / q\<close>,
  before the overflow check.
\<close>

definition round_ratio :: "nat \<Rightarrow> nat \<Rightarrow> nat \<times> nat" where
  "round_ratio p q =
     (let e = ulp_exponent p q; sl = nat (- e); sr = nat e;
          m = round_half_even (p * 2 ^ sl) (q * 2 ^ sr)
      in (m * 2 ^ sr, sl))"

definition overflows :: "nat \<times> nat \<Rightarrow> bool" where
  "overflows v = (case v of (num, dexp) \<Rightarrow> num \<ge> 2 ^ 1024 * 2 ^ dexp)"

text \<open>The double for sign \<open>s\<close> and magnitude \<open>p / q\<close>: zero, a finite double or an infinity.\<close>

definition round_double :: "bool \<Rightarrow> nat \<Rightarrow> nat \<Rightarrow> pyfloat" where
  "round_double s p q =
     (if p = 0 then Finite s 0 0
      else let v = round_ratio p q
           in if overflows v then Infinity s else Finite s (fst v) (snd v))"

text \<open>
  Conversion of a Python int to float (\<^verbatim>\<open>float(n)\<close>, and the coercion of an int operand
  of \<^verbatim>\<open>*\<close> or \<^verbatim>\<open>/\<close> whose other operand is a float): correctly rounded, and
  OverflowError when the rounded value does not fit.
\<close>

definition int_to_float :: "int \<Rightarrow> error + pyfloat" where
  "int_to_float n =
     (case round_double (n < 0) (nat \<bar>n\<bar>) 1 of
        Infinity s \<Rightarrow> Inl OverflowError
      | x \<Rightarrow> Inr x)"

text \<open>Float multiplication: overflow gives an infinity, no exception.\<close>

fun fmul :: "pyfloat \<Rightarrow> pyfloat \<Rightarrow> pyfloat" where
  "fmul (Finite s1 n1 d1) (Finite s2 n2 d2) = round_double (s1 \<noteq> s2) (n1 * n2) (2 ^ (d1 + d2))"
| "fmul (Finite s1 n1 d1) (Infinity s2) = (if n1 = 0 then NaN else Infinity (s1 \<noteq> s2))"
| "fmul (Infinity s1) (Finite s2 n2 d2) = (if n2 = 0 then NaN else Infinity (s1 \<noteq> s2))"
| "fmul (Infinity s1) (Infinity s2) = Infinity (s1 \<noteq> s2)"
| "fmul NaN y = NaN"
| "fmul x NaN = NaN"

text \<open>Float true division: ZeroDivisionError when the divisor is zero.\<close>

fun fdiv :: "pyfloat \<Rightarrow> pyfloat \<Rightarrow> error + pyfloat" where
  "fdiv (Finite s1 n1 d1) (Finite s2 n2 d2) =
     (if n2 = 0 then Inl ZeroDivisionError
      else Inr (round_double (s1 \<noteq> s2) (n1 * 2 ^ d2) (n2 * 2 ^ d1)))"
| "fdiv (Finite s1 n1 d1) (Infinity s2) = Inr (Finite (s1 \<noteq> s2) 0 0)"
| "fdiv (Infinity s1) (Finite s2 n2 d2) =
     (if n2 = 0 then Inl ZeroDivisionError else Inr (Infinity (s1 \<noteq> s2)))"
| "fdiv (Infinity s1) (Infinity s2) = Inr NaN"
| "fdiv NaN (Finite s2 n2 d2) = (if n2 = 0 then Inl ZeroDivisionError else Inr NaN)"
| "fdiv NaN y = Inr NaN"
| "fdiv x NaN = Inr NaN"

text \<open>
  Float addition. The sum of two finite doubles is an exact dyadic rational, rounded;
  an exact zero sum is \<open>+0.0\<close> unless both operands are negative zeros.
\<close>

fun fadd :: "pyfloat \<Rightarrow> pyfloat \<Rightarrow> pyfloat" where
  "fadd (Finite s1 n1 d1) (Finite s2 n2 d2) =
     (let a = n1 * 2 ^ d2; b = n2 * 2 ^ d1; q = 2 ^ (d1 + d2)
      in if s1 = s2 then round_double s1 (a + b) q
         else if a = b then Finite False 0 0
         else if a > b then round_double s1 (a - b) q
         else round_double s2 (b - a) q)"
| "fadd (Finite s1 n1 d1) (Infinity s2) = Infinity s2"
| "fadd (Infinity s1) (Finite s2 n2 d2) = Infinity s1"
| "fadd (Infinity s1) (Infinity s2) = (if s1 = s2 then Infinity s1 else NaN)"
| "fadd NaN y = NaN"
| "fadd x NaN = NaN"

subsection \<open>Formatting with \<^verbatim>\<open>'{:.2f}'\<close>\<close>

definition digit_char :: "nat \<Rightarrow> char" where
  "digit_char d = ''0123456789'' ! d"

fun decimal :: "nat \<Rightarrow> string" where
  "decimal n = (if n < 10 then [digit_char n] else decimal (n div 10) @ [digit_char (n mod 10)])"

text \<open>
  \<^verbatim>\<open>'{:.2f}'.format(x)\<close>: the exact value of the double rounded to hundredths (ties to
  even), printed with the sign bit, all the integer digits and two decimals.
\<close>

fun format_2f :: "pyfloat \<Rightarrow> string" where
  "format_2f (Finite s num dexp) =
     (let h = round_half_even (num * 100) (2 ^ dexp)
      in (if s then ''-'' else '''') @ decimal (h div 100) @ ''.''
           @ [digit_char (h mod 100 div 10), digit_char (h mod 10)])"
| "format_2f (Infinity s) = (if s then ''-inf'' else ''inf'')"
| "format_2f NaN = ''nan''"

subsection \<open>ReportTestSuite: the static methods\<close>

text \<open>The float literal \<^verbatim>\<open>100.0\<close>.\<close>

definition hundred :: pyfloat where
  "hundred = Finite False 100 0"

text \<open>
  \<^verbatim>\<open>success_rate(test_count, error_count, failure_count, skipped_count)\<close>. The counts are
  Python ints; \<^verbatim>\<open>if test_count\<close> is true for every nonzero int. In
  \<^verbatim>\<open>(test_count - unsuccessful_count) * 100.0 / test_count\<close> the int difference is
  converted to float for the product, then \<^verbatim>\<open>test_count\<close> for the quotient.
\<close>

definition success_rate :: "int \<Rightarrow> int \<Rightarrow> int \<Rightarrow> int \<Rightarrow> error + string" where
  "success_rate test_count error_count failure_count skipped_count =
     (if test_count \<noteq> 0 then
        (let unsuccessful_count = error_count + failure_count + skipped_count
         in case int_to_float (test_count - unsuccessful_count) of
              Inl x \<Rightarrow> Inl x
            | Inr a \<Rightarrow>
                (case int_to_float test_count of
                   Inl x \<Rightarrow> Inl x
                 | Inr b \<Rightarrow>
                     (case fdiv (fmul a hundred) b of
                        Inl x \<Rightarrow> Inl x
                      | Inr r \<Rightarrow> Inr (format_2f r @ ''%''))))
      else Inr ''0.00%'')"

definition ReportTestSuite_icon_class :: "int \<Rightarrow> int \<Rightarrow> int \<Rightarrow> int \<Rightarrow> string" where
  "ReportTestSuite_icon_class test_count error_count failure_count skipped_count =
     (if test_count = skipped_count then ''test-skipped''
      else if error_count > 0 then ''test-error''
      else if failure_count > 0 then ''test-failure''
      else ''test-passed'')"

subsection \<open>ReportTestCase\<close>

text \<open>The dict \<^verbatim>\<open>{'type': ..., 'message': ...}\<close> of a failure or an error; the message is
  the element's text, \<open>None\<close> when it has none.\<close>

record fault =
  ftype :: string
  message :: "string option"

record ReportTestCase =
  tc_name :: string
  tc_time :: pyfloat
  tc_failure :: "fault option"
  tc_error :: "fault option"
  tc_skipped :: bool

text \<open>Truth value of \<^verbatim>\<open>self.error\<close> and \<^verbatim>\<open>self.failure\<close>: \<open>None\<close> is false, a dict with
  two keys is true.\<close>

definition truthy :: "fault option \<Rightarrow> bool" where
  "truthy d = (case d of None \<Rightarrow> False | Some r \<Rightarrow> True)"

definition ReportTestCase_icon_class :: "ReportTestCase \<Rightarrow> string" where
  "ReportTestCase_icon_class self =
     (if tc_skipped self then ''test-skipped''
      else if truthy (tc_error self) then ''test-error''
      else if truthy (tc_failure self) then ''test-failure''
      else ''test-passed'')"

text \<open>The display dict of a case; \<open>cd_message = None\<close> is a dict without the key
  \<^verbatim>\<open>'message'\<close>.\<close>

record case_dict =
  cd_name :: string
  cd_time :: pyfloat
  cd_icon_class :: string
  cd_message :: "string option option"

definition ReportTestCase_as_dict :: "ReportTestCase \<Rightarrow> case_dict" where
  "ReportTestCase_as_dict self =
     \<lparr>cd_name = tc_name self, cd_time = tc_time self,
      cd_icon_class = ReportTestCase_icon_class self,
      cd_message =
        (case tc_error self of
           Some e \<Rightarrow> Some (message e)
         | None \<Rightarrow> (case tc_failure self of Some f \<Rightarrow> Some (message f) | None \<Rightarrow> None))\<rparr>"

subsection \<open>The builtins int(), float() and lower()\<close>

text \<open>
  The argument of \<^verbatim>\<open>int(...)\<close> and \<^verbatim>\<open>float(...)\<close> is an attribute value (a string) or
  the default \<^verbatim>\<open>0\<close> of \<^verbatim>\<open>attrib.get\<close>. What Python accepts as the text of a number is a
  parameter: \<open>int_of_str s = None\<close> when \<^verbatim>\<open>int(s)\<close> raises ValueError, and the same for
  \<open>float_of_str\<close>.

  A string is the list of the UTF-8 bytes of the text (for ASCII text, of its
  characters). \<open>str_lower s\<close> is \<^verbatim>\<open>s.lower()\<close>: which letters Python folds, ASCII or not, is
  a parameter too.
\<close>

datatype pyval = PyStr string | PyInt int

record builtins =
  int_of_str :: "string \<Rightarrow> int option"
  float_of_str :: "string \<Rightarrow> pyfloat option"
  str_lower :: "string \<Rightarrow> string"

definition py_int :: "builtins \<Rightarrow> pyval \<Rightarrow> error + int" where
  "py_int b v =
     (case v of
        PyInt n \<Rightarrow> Inr n
      | PyStr s \<Rightarrow> (case int_of_str b s of None \<Rightarrow> Inl ValueError | Some n \<Rightarrow> Inr n))"

definition py_float :: "builtins \<Rightarrow> pyval \<Rightarrow> error + pyfloat" where
  "py_float b v =
     (case v of
        PyInt n \<Rightarrow> int_to_float n
      | PyStr s \<Rightarrow> (case float_of_str b s of None \<Rightarrow> Inl ValueError | Some x \<Rightarrow> Inr x))"

definition ReportTestCase_init ::
  "builtins \<Rightarrow> string \<Rightarrow> pyval \<Rightarrow> fault option \<Rightarrow> fault option \<Rightarrow> bool \<Rightarrow> error + ReportTestCase"
where
  "ReportTestCase_init b name time failure err skipped =
     (case py_float b time of
        Inl x \<Rightarrow> Inl x
      | Inr t \<Rightarrow>
          Inr \<lparr>tc_name = name, tc_time = t, tc_failure = failure, tc_error = err,
               tc_skipped = skipped\<rparr>)"

subsection \<open>ReportTestSuite\<close>

text \<open>
  An element of the list \<^verbatim>\<open>self.testcases\<close>: a ReportTestCase object, or a display dict
  once \<^verbatim>\<open>as_dict\<close> has replaced the attribute.
\<close>

datatype testcase_item = Case ReportTestCase | CaseDict case_dict

text \<open>
  The record is the object's \<^verbatim>\<open>__dict__\<close>: the seven attributes set by \<^verbatim>\<open>__init__\<close>, and
  the keys \<^verbatim>\<open>'success'\<close> and \<^verbatim>\<open>'icon_class'\<close>, absent (\<open>None\<close>) until \<^verbatim>\<open>as_dict\<close> adds
  them.
\<close>

record ReportTestSuite =
  ts_name :: string
  ts_tests :: int
  ts_errors :: int
  ts_failures :: int
  ts_skipped :: int
  ts_time :: pyfloat
  ts_testcases :: "testcase_item list"
  ts_success :: "string option"
  ts_icon_class :: "string option"

definition ReportTestSuite_init ::
  "builtins \<Rightarrow> string \<Rightarrow> pyval \<Rightarrow> pyval \<Rightarrow> pyval \<Rightarrow> pyval \<Rightarrow> pyval \<Rightarrow> testcase_item list
     \<Rightarrow> error + ReportTestSuite"
where
  "ReportTestSuite_init b name tests errors failures skipped time testcases =
     (case py_int b tests of Inl x \<Rightarrow> Inl x | Inr t \<Rightarrow>
      (case py_int b errors of Inl x \<Rightarrow> Inl x | Inr e \<Rightarrow>
      (case py_int b failures of Inl x \<Rightarrow> Inl x | Inr f \<Rightarrow>
      (case py_int b skipped of Inl x \<Rightarrow> Inl x | Inr s \<Rightarrow>
      (case py_float b time of Inl x \<Rightarrow> Inl x | Inr tm \<Rightarrow>
         Inr \<lparr>ts_name = name, ts_tests = t, ts_errors = e, ts_failures = f, ts_skipped = s,
              ts_time = tm, ts_testcases = testcases, ts_success = None,
              ts_icon_class = None\<rparr>)))))"

text \<open>Comparison of the tuples \<^verbatim>\<open>(errors, failures)\<close>: lexicographic.\<close>

definition tuple_gt :: "int \<times> int \<Rightarrow> int \<times> int \<Rightarrow> bool" where
  "tuple_gt a b = (fst a > fst b \<or> (fst a = fst b \<and> snd a > snd b))"

text \<open>
  \<^verbatim>\<open>__lt__\<close>. The names are made lower case by \<^verbatim>\<open>lower()\<close> and compared as Python
  compares strings, code point by code point; on the UTF-8 bytes that is the
  lexicographic order of the byte lists, since UTF-8 keeps the order of the code points.
\<close>

definition suite_lt :: "builtins \<Rightarrow> ReportTestSuite \<Rightarrow> ReportTestSuite \<Rightarrow> bool" where
  "suite_lt py self other =
     (if tuple_gt (ts_errors self, ts_failures self) (ts_errors other, ts_failures other)
      then True
      else if tuple_gt (ts_errors other, ts_failures other) (ts_errors self, ts_failures self)
      then False
      else str_lower py (ts_name self) < str_lower py (ts_name other))"

text \<open>
  \<^verbatim>\<open>map(lambda tc: tc.as_dict(), self.testcases)\<close> (Python 2: a list, built at once). A
  display dict has no method \<^verbatim>\<open>as_dict\<close>.
\<close>

fun map_as_dict :: "testcase_item list \<Rightarrow> error + testcase_item list" where
  "map_as_dict [] = Inr []"
| "map_as_dict (Case tc # rest) =
     (case map_as_dict rest of
        Inl x \<Rightarrow> Inl x
      | Inr ds \<Rightarrow> Inr (CaseDict (ReportTestCase_as_dict tc) # ds))"
| "map_as_dict (CaseDict d # rest) = Inl AttributeError"

text \<open>
  \<^verbatim>\<open>as_dict\<close> of a suite. \<^verbatim>\<open>d = self.__dict__\<close> is the object's own dictionary, so every
  assignment to \<open>d\<close> changes the suite. The result is the outcome (the exception, or the
  dict returned, which is the suite's new state) and the suite after the call.
\<close>

definition ReportTestSuite_as_dict ::
  "ReportTestSuite \<Rightarrow> (error + ReportTestSuite) \<times> ReportTestSuite"
where
  "ReportTestSuite_as_dict self =
     (case success_rate (ts_tests self) (ts_errors self) (ts_failures self) (ts_skipped self) of
        Inl x \<Rightarrow> (Inl x, self)
      | Inr sr \<Rightarrow>
          (let s1 = self\<lparr>ts_success := Some sr\<rparr>;
               s2 = s1\<lparr>ts_icon_class := Some (ReportTestSuite_icon_class (ts_tests s1)
                       (ts_errors s1) (ts_failures s1) (ts_skipped s1))\<rparr>
           in case map_as_dict (ts_testcases s2) of
                Inl x \<Rightarrow> (Inl x, s2)
              | Inr ds \<Rightarrow> (let s3 = s2\<lparr>ts_testcases := ds\<rparr> in (Inr s3, s3))))"

subsection \<open>ElementTree\<close>

text \<open>
  An element: its tag, its attribute dict, its text (\<open>None\<close> when there is none) and its
  children in document order.
\<close>

datatype element =
  Element (el_tag: string) (el_attrib: "string \<rightharpoonup> string") (el_text: "string option")
    (el_children: "element list")

text \<open>
  \<^verbatim>\<open>Element.iter(tag)\<close>: the element itself and everything below it, in document order
  (depth first), restricted to the elements with that tag.
\<close>

fun iter_all :: "element \<Rightarrow> element list" where
  "iter_all (Element t a x cs) = Element t a x cs # concat (map iter_all cs)"

definition iter :: "string \<Rightarrow> element \<Rightarrow> element list" where
  "iter tg e = filter (\<lambda>x. el_tag x = tg) (iter_all e)"

text \<open>
  What \<^verbatim>\<open>ET.parse(xml_file)\<close> makes of a file: IOError when it cannot be read,
  ParseError when it is not well-formed XML, else the tree with its root.
\<close>

datatype xml_file = Unreadable | Malformed | Document element

definition ET_parse_getroot :: "xml_file \<Rightarrow> error + element" where
  "ET_parse_getroot f =
     (case f of
        Unreadable \<Rightarrow> Inl IOError
      | Malformed \<Rightarrow> Inl ParseError
      | Document root \<Rightarrow> Inr root)"

subsection \<open>The parser\<close>

text \<open>
  The loops \<^verbatim>\<open>for f in testcase.iter('failure'): failure = {...}\<close> and the same for
  \<^verbatim>\<open>'error'\<close>: every pass overwrites the variable, and \<^verbatim>\<open>f.attrib['type']\<close> raises
  KeyError when the attribute is absent.
\<close>

fun fault_loop :: "fault option \<Rightarrow> element list \<Rightarrow> error + fault option" where
  "fault_loop acc [] = Inr acc"
| "fault_loop acc (f # fs) =
     (case el_attrib f ''type'' of
        None \<Rightarrow> Inl (KeyError ''type'')
      | Some ty \<Rightarrow> fault_loop (Some \<lparr>ftype = ty, message = el_text f\<rparr>) fs)"

text \<open>The loop \<^verbatim>\<open>for _s in testcase.iter('skipped'): skipped = True\<close>.\<close>

fun skipped_loop :: "bool \<Rightarrow> element list \<Rightarrow> bool" where
  "skipped_loop acc [] = acc"
| "skipped_loop acc (s # ss) = skipped_loop True ss"

text \<open>The body of the loop over \<^verbatim>\<open>root.iter('testcase')\<close>.\<close>

definition parse_testcase :: "builtins \<Rightarrow> element \<Rightarrow> error + ReportTestCase" where
  "parse_testcase b testcase =
     (case fault_loop None (iter ''failure'' testcase) of Inl x \<Rightarrow> Inl x | Inr failure \<Rightarrow>
      (case fault_loop None (iter ''error'' testcase) of Inl x \<Rightarrow> Inl x | Inr err \<Rightarrow>
      (let skipped = skipped_loop False (iter ''skipped'' testcase)
       in case el_attrib testcase ''name'' of
            None \<Rightarrow> Inl (KeyError ''name'')
          | Some name \<Rightarrow>
              ReportTestCase_init b name
                (case el_attrib testcase ''time'' of None \<Rightarrow> PyInt 0 | Some t \<Rightarrow> PyStr t)
                failure err skipped)))"

fun parse_testcases :: "builtins \<Rightarrow> element list \<Rightarrow> error + ReportTestCase list" where
  "parse_testcases b [] = Inr []"
| "parse_testcases b (tc # tcs) =
     (case parse_testcase b tc of
        Inl x \<Rightarrow> Inl x
      | Inr c \<Rightarrow> (case parse_testcases b tcs of Inl x \<Rightarrow> Inl x | Inr cs \<Rightarrow> Inr (c # cs)))"

text \<open>
  The body of the loop over \<^verbatim>\<open>root.iter('testsuite')\<close>: the six attribute reads, in the
  order of the arguments, then the constructor.
\<close>

definition parse_testsuite ::
  "builtins \<Rightarrow> testcase_item list \<Rightarrow> element \<Rightarrow> error + ReportTestSuite"
where
  "parse_testsuite b testcases testsuite =
     (case el_attrib testsuite ''name'' of None \<Rightarrow> Inl (KeyError ''name'') | Some name \<Rightarrow>
      (case el_attrib testsuite ''tests'' of None \<Rightarrow> Inl (KeyError ''tests'') | Some tests \<Rightarrow>
      (case el_attrib testsuite ''errors'' of None \<Rightarrow> Inl (KeyError ''errors'') | Some errors \<Rightarrow>
      (case el_attrib testsuite ''failures'' of None \<Rightarrow> Inl (KeyError ''failures'')
       | Some failures \<Rightarrow>
      (let skipped = (case el_attrib testsuite ''skipped'' of None \<Rightarrow> PyInt 0 | Some s \<Rightarrow> PyStr s)
       in case el_attrib testsuite ''time'' of None \<Rightarrow> Inl (KeyError ''time'') | Some time \<Rightarrow>
            ReportTestSuite_init b name (PyStr tests) (PyStr errors) (PyStr failures) skipped
              (PyStr time) testcases)))))"

fun parse_testsuites ::
  "builtins \<Rightarrow> testcase_item list \<Rightarrow> element list \<Rightarrow> error + ReportTestSuite list"
where
  "parse_testsuites b testcases [] = Inr []"
| "parse_testsuites b testcases (ts # tss) =
     (case parse_testsuite b testcases ts of
        Inl x \<Rightarrow> Inl x
      | Inr s \<Rightarrow>
          (case parse_testsuites b testcases tss of Inl x \<Rightarrow> Inl x | Inr ss \<Rightarrow> Inr (s # ss)))"

text \<open>\<^verbatim>\<open>_parse_xml_file\<close>\<close>

definition parse_xml_file :: "builtins \<Rightarrow> xml_file \<Rightarrow> error + ReportTestSuite list" where
  "parse_xml_file b xml_file =
     (case ET_parse_getroot xml_file of
        Inl x \<Rightarrow> Inl x
      | Inr root \<Rightarrow>
          (case parse_testcases b (iter ''testcase'' root) of
             Inl x \<Rightarrow> Inl x
           | Inr testcases \<Rightarrow> parse_testsuites b (map Case testcases) (iter ''testsuite'' root)))"

text \<open>
  \<^verbatim>\<open>testsuites.sort()\<close> compares with \<^verbatim>\<open>__lt__\<close> only and is stable; it is modelled by a
  stable insertion sort.
\<close>

fun insort_suite ::
  "builtins \<Rightarrow> ReportTestSuite \<Rightarrow> ReportTestSuite list \<Rightarrow> ReportTestSuite list"
where
  "insort_suite py x [] = [x]"
| "insort_suite py x (y # ys) =
     (if suite_lt py y x then y # insort_suite py x ys else x # y # ys)"

definition sort_suites :: "builtins \<Rightarrow> ReportTestSuite list \<Rightarrow> ReportTestSuite list" where
  "sort_suites py xs = foldr (insort_suite py) xs []"

text \<open>The loop of \<^verbatim>\<open>_parse_xml_files\<close> over the files that glob found, in glob's order.\<close>

fun parse_files_loop ::
  "builtins \<Rightarrow> ReportTestSuite list \<Rightarrow> xml_file list \<Rightarrow> error + ReportTestSuite list"
where
  "parse_files_loop b testsuites [] = Inr testsuites"
| "parse_files_loop b testsuites (f # fs) =
     (case parse_xml_file b f of
        Inl x \<Rightarrow> Inl x
      | Inr ss \<Rightarrow> parse_files_loop b (testsuites @ ss) fs)"

text \<open>
  A directory is the list of its entries (name and file) in the order the operating
  system lists them. \<^verbatim>\<open>glob.glob(os.path.join(xml_dir, 'TEST-*.xml'))\<close> keeps the entries
  whose name starts with \<^verbatim>\<open>TEST-\<close> and ends in \<^verbatim>\<open>.xml\<close>.
\<close>

definition glob_match :: "string \<Rightarrow> bool" where
  "glob_match n =
     (length n \<ge> 9 \<and> take 5 n = ''TEST-'' \<and> drop (length n - 4) n = ''.xml'')"

definition glob_TEST_xml :: "(string \<times> xml_file) list \<Rightarrow> xml_file list" where
  "glob_TEST_xml entries = map snd (filter (\<lambda>e. glob_match (fst e)) entries)"

text \<open>\<^verbatim>\<open>_parse_xml_files\<close>\<close>

definition parse_xml_files ::
  "builtins \<Rightarrow> (string \<times> xml_file) list \<Rightarrow> error + ReportTestSuite list"
where
  "parse_xml_files b xml_dir =
     (case parse_files_loop b [] (glob_TEST_xml xml_dir) of
        Inl x \<Rightarrow> Inl x
      | Inr testsuites \<Rightarrow> Inr (sort_suites b testsuites))"

subsection \<open>Rendering\<close>

record report_values =
  total_tests :: int
  total_errors :: int
  total_failures :: int
  total_skipped :: int
  total_time :: pyfloat
  total_success :: string
  summary_icon_class :: string
  testsuites :: "ReportTestSuite list"

text \<open>The loop that adds up the totals, from \<^verbatim>\<open>0, 0, 0, 0, 0.0\<close>.\<close>

fun totals_loop ::
  "int \<times> int \<times> int \<times> int \<times> pyfloat \<Rightarrow> ReportTestSuite list \<Rightarrow> int \<times> int \<times> int \<times> int \<times> pyfloat"
where
  "totals_loop acc [] = acc"
| "totals_loop (t, e, f, s, tm) (ts # tss) =
     totals_loop (t + ts_tests ts, e + ts_errors ts, f + ts_failures ts, s + ts_skipped ts,
                  fadd tm (ts_time ts)) tss"

text \<open>\<^verbatim>\<open>map(lambda ts: ts.as_dict(), testsuites)\<close>\<close>

fun map_suite_as_dict :: "ReportTestSuite list \<Rightarrow> error + ReportTestSuite list" where
  "map_suite_as_dict [] = Inr []"
| "map_suite_as_dict (ts # tss) =
     (case fst (ReportTestSuite_as_dict ts) of
        Inl x \<Rightarrow> Inl x
      | Inr d \<Rightarrow> (case map_suite_as_dict tss of Inl x \<Rightarrow> Inl x | Inr ds \<Rightarrow> Inr (d # ds)))"

text \<open>
  \<^verbatim>\<open>_generate_html\<close>. The Mustache renderer is not part of this module: \<open>render\<close> is what
  \<^verbatim>\<open>renderer.render_name('junit_report.html', values)\<close> returns or raises.
\<close>

definition generate_html ::
  "(report_values \<Rightarrow> error + string) \<Rightarrow> ReportTestSuite list \<Rightarrow> error + string"
where
  "generate_html render suites =
     (case totals_loop (0, 0, 0, 0, Finite False 0 0) suites of
        (t, e, f, s, tm) \<Rightarrow>
          (case success_rate t e f s of
             Inl x \<Rightarrow> Inl x
           | Inr sr \<Rightarrow>
               (case map_suite_as_dict suites of
                  Inl x \<Rightarrow> Inl x
                | Inr ds \<Rightarrow>
                    render \<lparr>total_tests = t, total_errors = e, total_failures = f,
                            total_skipped = s, total_time = tm, total_success = sr,
                            summary_icon_class = ReportTestSuite_icon_class t e f s,
                            testsuites = ds\<rparr>)))"

subsection \<open>JUnitHtmlReport.report\<close>

text \<open>
  The part of the file system that \<^verbatim>\<open>report()\<close> reads and writes: the entries of
  \<^verbatim>\<open>xml_dir\<close>, whether the directory \<^verbatim>\<open>reports\<close> exists, the content of
  \<^verbatim>\<open>reports/junit-report.html\<close> (\<open>None\<close> when there is no such file), and whether the
  directory and the file can be created and written.
\<close>

record filesystem =
  xml_dir :: "(string \<times> xml_file) list"
  report_dir_exists :: bool
  report_file :: "string option"
  writable :: bool

definition path_join :: "string \<Rightarrow> string \<Rightarrow> string" where
  "path_join a p = (if a = [] \<or> last a = CHR ''/'' then a @ p else a @ ''/'' @ p)"

definition report_file_path :: "string \<Rightarrow> string" where
  "report_file_path xml_dir_path = path_join (path_join xml_dir_path ''reports'') ''junit-report.html''"

text \<open>
  Modelled from the spec: \<^verbatim>\<open>safe_mkdir_for\<close> of \<^verbatim>\<open>pants.util.dirutil\<close> is not part of this
  module; the spec calls it an "ensure parent directories exist" utility. It creates the
  directory \<^verbatim>\<open>reports\<close> when it is missing, and fails when it cannot.
\<close>

definition safe_mkdir_for :: "filesystem \<Rightarrow> error + filesystem" where
  "safe_mkdir_for fs =
     (if report_dir_exists fs then Inr fs
      else if writable fs then Inr (fs\<lparr>report_dir_exists := True\<rparr>)
      else Inl IOError)"

text \<open>
  \<^verbatim>\<open>open(self._report_file_path, 'wb')\<close>: creates the file or empties it, and fails when
  it cannot.
\<close>

definition open_wb :: "filesystem \<Rightarrow> error + filesystem" where
  "open_wb fs = (if writable fs then Inr (fs\<lparr>report_file := Some []\<rparr>) else Inl IOError)"

text \<open>
  \<^verbatim>\<open>report()\<close>: the outcome and the file system after the call. The parsing comes first;
  then \<^verbatim>\<open>safe_mkdir_for\<close>; then \<^verbatim>\<open>open\<close>; the HTML is generated inside the \<^verbatim>\<open>with\<close>
  block, when the file is already open, and written. The calls of the logger are left
  out, and \<^verbatim>\<open>ensure_binary\<close> leaves the rendered text as it is.
\<close>

definition report ::
  "builtins \<Rightarrow> (report_values \<Rightarrow> error + string) \<Rightarrow> string \<Rightarrow> filesystem
     \<Rightarrow> (error + string) \<times> filesystem"
where
  "report b render xml_dir_path fs =
     (case parse_xml_files b (xml_dir fs) of
        Inl x \<Rightarrow> (Inl x, fs)
      | Inr suites \<Rightarrow>
          (case safe_mkdir_for fs of
             Inl x \<Rightarrow> (Inl x, fs)
           | Inr fs1 \<Rightarrow>
               (case open_wb fs1 of
                  Inl x \<Rightarrow> (Inl x, fs1)
                | Inr fs2 \<Rightarrow>
                    (case generate_html render suites of
                       Inl x \<Rightarrow> (Inl x, fs2)
                     | Inr html \<Rightarrow>
                         (Inr (report_file_path xml_dir_path),
                          fs2\<lparr>report_file := Some html\<rparr>)))))"

subsection \<open>Sample inputs\<close>

text \<open>
  Concrete builtins, a renderer and documents, for the examples below. The examples use
  ASCII names only, and on ASCII text \<^verbatim>\<open>lower()\<close> turns the letters A to Z into a to z
  and leaves every other character.
\<close>

definition ascii_lower_char :: "char \<Rightarrow> char" where
  "ascii_lower_char c =
     (case map_of (zip ''ABCDEFGHIJKLMNOPQRSTUVWXYZ'' ''abcdefghijklmnopqrstuvwxyz'') c of
        Some l \<Rightarrow> l
      | None \<Rightarrow> c)"

definition ascii_lower :: "string \<Rightarrow> string" where
  "ascii_lower s = map ascii_lower_char s"

definition sample_builtins :: builtins where
  "sample_builtins =
     \<lparr>int_of_str = (\<lambda>s. if s = ''0'' then Some 0 else if s = ''1'' then Some 1
                          else if s = ''2'' then Some 2 else None),
      float_of_str = (\<lambda>s. if s = ''1.5'' then Some (Finite False 3 1) else None),
      str_lower = ascii_lower\<rparr>"

definition sample_render :: "report_values \<Rightarrow> error + string" where
  "sample_render v = Inr ''<html/>''"

definition sample_testcase :: element where
  "sample_testcase =
     Element ''testcase'' [''name'' \<mapsto> ''t1'', ''time'' \<mapsto> ''1.5''] None
       [Element ''failure'' [''type'' \<mapsto> ''A''] (Some ''first'') [],
        Element ''system-out'' Map.empty None
          [Element ''failure'' [''type'' \<mapsto> ''B''] (Some ''second'') []],
        Element ''error'' [''type'' \<mapsto> ''E''] None [],
        Element ''skipped'' Map.empty None []]"

definition sample_root :: element where
  "sample_root =
     Element ''testsuites'' Map.empty None
       [Element ''testsuite''
          [''name'' \<mapsto> ''s1'', ''tests'' \<mapsto> ''1'', ''errors'' \<mapsto> ''0'', ''failures'' \<mapsto> ''0'',
           ''time'' \<mapsto> ''1.5'']
          None
          [Element ''testcase'' [''name'' \<mapsto> ''a''] None []],
        Element ''testsuite''
          [''name'' \<mapsto> ''s2'', ''tests'' \<mapsto> ''1'', ''errors'' \<mapsto> ''0'', ''failures'' \<mapsto> ''1'',
           ''skipped'' \<mapsto> ''0'', ''time'' \<mapsto> ''1.5'']
          None
          [Element ''testcase'' [''name'' \<mapsto> ''b'', ''time'' \<mapsto> ''1.5''] None
             [Element ''failure'' [''type'' \<mapsto> ''X''] (Some ''msg'') []]]]"

definition sample_no_tests :: element where
  "sample_no_tests =
     Element ''testsuite''
       [''name'' \<mapsto> ''s'', ''errors'' \<mapsto> ''0'', ''failures'' \<mapsto> ''0'', ''time'' \<mapsto> ''1.5'']
       None []"

definition sample_bad_count :: element where
  "sample_bad_count =
     Element ''testsuite''
       [''name'' \<mapsto> ''s'', ''tests'' \<mapsto> ''many'', ''errors'' \<mapsto> ''0'', ''failures'' \<mapsto> ''0'',
        ''time'' \<mapsto> ''1.5'']
       None []"

definition sample_no_type :: element where
  "sample_no_type =
     Element ''testsuite''
       [''name'' \<mapsto> ''s'', ''tests'' \<mapsto> ''1'', ''errors'' \<mapsto> ''0'', ''failures'' \<mapsto> ''1'',
        ''time'' \<mapsto> ''1.5'']
       None
       [Element ''testcase'' [''name'' \<mapsto> ''a''] None
          [Element ''failure'' Map.empty (Some ''msg'') []]]"

definition sample_suite :: ReportTestSuite where
  "sample_suite =
     \<lparr>ts_name = ''s2'', ts_tests = 1, ts_errors = 0, ts_failures = 1, ts_skipped = 0,
      ts_time = Finite False 3 1,
      ts_testcases =
        [Case \<lparr>tc_name = ''b'', tc_time = Finite False 3 1,
               tc_failure = Some \<lparr>ftype = ''X'', message = Some ''msg''\<rparr>,
               tc_error = None, tc_skipped = False\<rparr>],
      ts_success = None, ts_icon_class = None\<rparr>"

definition sample_suite_dict :: ReportTestSuite where
  "sample_suite_dict =
     \<lparr>ts_name = ''s2'', ts_tests = 1, ts_errors = 0, ts_failures = 1, ts_skipped = 0,
      ts_time = Finite False 3 1,
      ts_testcases =
        [CaseDict \<lparr>cd_name = ''b'', cd_time = Finite False 3 1,
                   cd_icon_class = ''test-failure'', cd_message = Some (Some ''msg'')\<rparr>],
      ts_success = Some ''0.00%'', ts_icon_class = Some ''test-failure''\<rparr>"

definition sample_huge_suite :: ReportTestSuite where
  "sample_huge_suite =
     \<lparr>ts_name = ''huge'', ts_tests = 2 ^ 1024, ts_errors = 2 ^ 1024, ts_failures = 0,
      ts_skipped = 0, ts_time = Finite False 3 1, ts_testcases = [],
      ts_success = None, ts_icon_class = None\<rparr>"

section \<open>Status classes\<close>

text \<open>
  C1, as the code has it. \<^verbatim>\<open>ReportTestCase.icon_class\<close> tests the skipped flag first: the
  precedence is skipped, then error, then failure, then passed. The result is one of the
  four class names and depends on the three attributes only.
\<close>

theorem ReportTestCase_icon_class_precedence:
  "(tc_skipped tc \<longrightarrow> ReportTestCase_icon_class tc = ''test-skipped'') \<and>
   (\<not> tc_skipped tc \<and> tc_error tc \<noteq> None \<longrightarrow> ReportTestCase_icon_class tc = ''test-error'') \<and>
   (\<not> tc_skipped tc \<and> tc_error tc = None \<and> tc_failure tc \<noteq> None
      \<longrightarrow> ReportTestCase_icon_class tc = ''test-failure'') \<and>
   (\<not> tc_skipped tc \<and> tc_error tc = None \<and> tc_failure tc = None
      \<longrightarrow> ReportTestCase_icon_class tc = ''test-passed'') \<and>
   ReportTestCase_icon_class tc \<in> {''test-passed'', ''test-skipped'', ''test-error'', ''test-failure''} \<and>
   (tc_skipped tc = tc_skipped tc' \<and> (tc_error tc = None) = (tc_error tc' = None) \<and>
    (tc_failure tc = None) = (tc_failure tc' = None)
      \<longrightarrow> ReportTestCase_icon_class tc = ReportTestCase_icon_class tc')"
  by (cases "tc_error tc"; cases "tc_failure tc"; cases "tc_error tc'"; cases "tc_failure tc'")
     (simp_all add: ReportTestCase_icon_class_def truthy_def)

theorem ReportTestCase_icon_class_precedence_witness:
  "ReportTestCase_icon_class
     \<lparr>tc_name = ''t'', tc_time = Finite False 0 0,
      tc_failure = Some \<lparr>ftype = ''F'', message = Some ''no''\<rparr>,
      tc_error = Some \<lparr>ftype = ''E'', message = Some ''boom''\<rparr>, tc_skipped = False\<rparr>
     = ''test-error'' \<and>
   ReportTestCase_icon_class
     \<lparr>tc_name = ''t'', tc_time = Finite False 0 0,
      tc_failure = Some \<lparr>ftype = ''F'', message = Some ''no''\<rparr>,
      tc_error = None, tc_skipped = False\<rparr>
     = ''test-failure'' \<and>
   ReportTestCase_icon_class
     \<lparr>tc_name = ''t'', tc_time = Finite False 0 0, tc_failure = None,
      tc_error = None, tc_skipped = True\<rparr>
     = ''test-skipped'' \<and>
   ReportTestCase_icon_class
     \<lparr>tc_name = ''t'', tc_time = Finite False 0 0, tc_failure = None,
      tc_error = None, tc_skipped = False\<rparr>
     = ''test-passed''"
  using
    ReportTestCase_icon_class_precedence [of
      "\<lparr>tc_name = ''t'', tc_time = Finite False 0 0,
        tc_failure = Some \<lparr>ftype = ''F'', message = Some ''no''\<rparr>,
        tc_error = Some \<lparr>ftype = ''E'', message = Some ''boom''\<rparr>, tc_skipped = False\<rparr>"]
    ReportTestCase_icon_class_precedence [of
      "\<lparr>tc_name = ''t'', tc_time = Finite False 0 0,
        tc_failure = Some \<lparr>ftype = ''F'', message = Some ''no''\<rparr>,
        tc_error = None, tc_skipped = False\<rparr>"]
    ReportTestCase_icon_class_precedence [of
      "\<lparr>tc_name = ''t'', tc_time = Finite False 0 0, tc_failure = None,
        tc_error = None, tc_skipped = True\<rparr>"]
    ReportTestCase_icon_class_precedence [of
      "\<lparr>tc_name = ''t'', tc_time = Finite False 0 0, tc_failure = None,
        tc_error = None, tc_skipped = False\<rparr>"]
  by simp

text \<open>
  C1 as stated fails: a case that is skipped and has an error record gets the skipped
  class, not the error class.
\<close>

theorem ReportTestCase_icon_class_counterexample:
  "tc_error
     \<lparr>tc_name = ''t'', tc_time = Finite False 0 0, tc_failure = None,
      tc_error = Some \<lparr>ftype = ''E'', message = Some ''boom''\<rparr>, tc_skipped = True\<rparr> \<noteq> None \<and>
   ReportTestCase_icon_class
     \<lparr>tc_name = ''t'', tc_time = Finite False 0 0, tc_failure = None,
      tc_error = Some \<lparr>ftype = ''E'', message = Some ''boom''\<rparr>, tc_skipped = True\<rparr>
     = ''test-skipped'' \<and>
   ReportTestCase_icon_class
     \<lparr>tc_name = ''t'', tc_time = Finite False 0 0, tc_failure = None,
      tc_error = Some \<lparr>ftype = ''E'', message = Some ''boom''\<rparr>, tc_skipped = True\<rparr>
     \<noteq> ''test-error''"
  by (simp add: ReportTestCase_icon_class_def)

text \<open>
  C3. The suite-level \<^verbatim>\<open>icon_class\<close> gives the skipped class whenever the test count
  equals the skipped count, whatever the errors and failures are (so also when all four
  counts are zero); otherwise the error class when there are errors, otherwise the failure
  class when there are failures, otherwise the passed class.
\<close>

theorem ReportTestSuite_icon_class_precedence:
  "(t = s \<longrightarrow> ReportTestSuite_icon_class t e f s = ''test-skipped'') \<and>
   (t \<noteq> s \<and> e > 0 \<longrightarrow> ReportTestSuite_icon_class t e f s = ''test-error'') \<and>
   (t \<noteq> s \<and> \<not> e > 0 \<and> f > 0 \<longrightarrow> ReportTestSuite_icon_class t e f s = ''test-failure'') \<and>
   (t \<noteq> s \<and> \<not> e > 0 \<and> \<not> f > 0 \<longrightarrow> ReportTestSuite_icon_class t e f s = ''test-passed'') \<and>
   ReportTestSuite_icon_class 0 0 0 0 = ''test-skipped''"
  by (simp add: ReportTestSuite_icon_class_def)

theorem ReportTestSuite_icon_class_precedence_witness:
  "ReportTestSuite_icon_class 3 2 1 3 = ''test-skipped'' \<and>
   ReportTestSuite_icon_class 3 2 1 0 = ''test-error'' \<and>
   ReportTestSuite_icon_class 3 0 1 0 = ''test-failure'' \<and>
   ReportTestSuite_icon_class 3 0 0 1 = ''test-passed''"
  using ReportTestSuite_icon_class_precedence [of 3 3 2 1]
    ReportTestSuite_icon_class_precedence [of 3 0 2 1]
    ReportTestSuite_icon_class_precedence [of 3 0 0 1]
    ReportTestSuite_icon_class_precedence [of 3 1 0 0]
  by simp

section \<open>The ordering of suites\<close>

lemma suite_lt_iff:
  "suite_lt py a b \<longleftrightarrow>
     tuple_gt (ts_errors a, ts_failures a) (ts_errors b, ts_failures b) \<or>
     ((ts_errors a, ts_failures a) = (ts_errors b, ts_failures b) \<and>
      str_lower py (ts_name a) < str_lower py (ts_name b))"
  by (auto simp: suite_lt_def tuple_gt_def)

lemma suite_lt_irrefl: "\<not> suite_lt py a a"
  unfolding suite_lt_iff by (auto simp: tuple_gt_def)

lemma suite_lt_trans: "suite_lt py a b \<Longrightarrow> suite_lt py b c \<Longrightarrow> suite_lt py a c"
  unfolding suite_lt_iff by (auto simp: tuple_gt_def)

lemma suite_incomparable_iff:
  "(\<not> suite_lt py a b \<and> \<not> suite_lt py b a) \<longleftrightarrow>
     (ts_errors a = ts_errors b \<and> ts_failures a = ts_failures b \<and>
      str_lower py (ts_name a) = str_lower py (ts_name b))"
  unfolding suite_lt_iff by (auto simp: tuple_gt_def)

lemma lower_Alpha: "str_lower sample_builtins ''Alpha'' = ''alpha''"
  by (simp add: sample_builtins_def ascii_lower_def ascii_lower_char_def)

lemma lower_alpha: "str_lower sample_builtins ''alpha'' = ''alpha''"
  by (simp add: sample_builtins_def ascii_lower_def ascii_lower_char_def)

lemma lower_beta: "str_lower sample_builtins ''beta'' = ''beta''"
  by (simp add: sample_builtins_def ascii_lower_def ascii_lower_char_def)

text \<open>
  C4, as the code has it. \<^verbatim>\<open>__lt__\<close> is a strict weak order: suite \<open>a\<close> sorts strictly
  before \<open>b\<close> exactly when its pair (errors, failures) is lexicographically greater, or
  the pairs are equal and its name made lower case by \<^verbatim>\<open>lower()\<close> is smaller; it is
  irreflexive and transitive; and two suites are unordered exactly when they agree on
  errors, failures and the name made lower case. This holds whatever letters \<^verbatim>\<open>lower()\<close>
  folds. The two examples of the claim hold: the first for every \<^verbatim>\<open>lower()\<close>, the second
  because \<^verbatim>\<open>lower()\<close> makes \<^verbatim>\<open>Alpha\<close> into \<^verbatim>\<open>alpha\<close> and leaves \<^verbatim>\<open>beta\<close>.
\<close>

theorem suite_lt_strict_weak_order:
  "(suite_lt py a b \<longleftrightarrow>
      tuple_gt (ts_errors a, ts_failures a) (ts_errors b, ts_failures b) \<or>
      ((ts_errors a, ts_failures a) = (ts_errors b, ts_failures b) \<and>
       str_lower py (ts_name a) < str_lower py (ts_name b))) \<and>
   \<not> suite_lt py a a \<and>
   (suite_lt py a b \<and> suite_lt py b c \<longrightarrow> suite_lt py a c) \<and>
   ((\<not> suite_lt py a b \<and> \<not> suite_lt py b a) \<longleftrightarrow>
      (ts_errors a = ts_errors b \<and> ts_failures a = ts_failures b \<and>
       str_lower py (ts_name a) = str_lower py (ts_name b))) \<and>
   (ts_errors a = 1 \<and> ts_failures a = 0 \<and> ts_name a = ''b'' \<and>
    ts_errors b = 0 \<and> ts_failures b = 2 \<and> ts_name b = ''a'' \<longrightarrow> suite_lt py a b) \<and>
   (str_lower py ''Alpha'' = ''alpha'' \<and> str_lower py ''beta'' = ''beta'' \<and>
    ts_errors a = ts_errors c \<and> ts_failures a = ts_failures c \<and>
    ts_name a = ''Alpha'' \<and> ts_name c = ''beta'' \<longrightarrow> suite_lt py a c)"
proof -
  have ex1: "ts_errors a = 1 \<and> ts_failures a = 0 \<and> ts_name a = ''b'' \<and>
      ts_errors b = 0 \<and> ts_failures b = 2 \<and> ts_name b = ''a'' \<longrightarrow> suite_lt py a b"
    by (simp add: suite_lt_def tuple_gt_def)
  have ex2: "str_lower py ''Alpha'' = ''alpha'' \<and> str_lower py ''beta'' = ''beta'' \<and>
      ts_errors a = ts_errors c \<and> ts_failures a = ts_failures c \<and>
      ts_name a = ''Alpha'' \<and> ts_name c = ''beta'' \<longrightarrow> suite_lt py a c"
    by (simp add: suite_lt_def tuple_gt_def)
  have tr: "suite_lt py a b \<and> suite_lt py b c \<longrightarrow> suite_lt py a c"
    using suite_lt_trans by blast
  show ?thesis
    using suite_lt_iff [of py a b] suite_lt_irrefl [of py a] suite_incomparable_iff [of py a b]
      ex1 ex2 tr
    by blast
qed

theorem suite_lt_strict_weak_order_witness:
  "suite_lt sample_builtins
     \<lparr>ts_name = ''b'', ts_tests = 3, ts_errors = 1, ts_failures = 0, ts_skipped = 0,
      ts_time = Finite False 0 0, ts_testcases = [], ts_success = None, ts_icon_class = None\<rparr>
     \<lparr>ts_name = ''a'', ts_tests = 3, ts_errors = 0, ts_failures = 2, ts_skipped = 0,
      ts_time = Finite False 0 0, ts_testcases = [], ts_success = None, ts_icon_class = None\<rparr> \<and>
   suite_lt sample_builtins
     \<lparr>ts_name = ''Alpha'', ts_tests = 3, ts_errors = 0, ts_failures = 2, ts_skipped = 0,
      ts_time = Finite False 0 0, ts_testcases = [], ts_success = None, ts_icon_class = None\<rparr>
     \<lparr>ts_name = ''beta'', ts_tests = 3, ts_errors = 0, ts_failures = 2, ts_skipped = 0,
      ts_time = Finite False 0 0, ts_testcases = [], ts_success = None, ts_icon_class = None\<rparr>"
  using
    suite_lt_strict_weak_order [of sample_builtins
      "\<lparr>ts_name = ''b'', ts_tests = 3, ts_errors = 1, ts_failures = 0, ts_skipped = 0,
        ts_time = Finite False 0 0, ts_testcases = [], ts_success = None, ts_icon_class = None\<rparr>"
      "\<lparr>ts_name = ''a'', ts_tests = 3, ts_errors = 0, ts_failures = 2, ts_skipped = 0,
        ts_time = Finite False 0 0, ts_testcases = [], ts_success = None, ts_icon_class = None\<rparr>"
      "\<lparr>ts_name = ''a'', ts_tests = 3, ts_errors = 0, ts_failures = 2, ts_skipped = 0,
        ts_time = Finite False 0 0, ts_testcases = [], ts_success = None, ts_icon_class = None\<rparr>"]
    suite_lt_strict_weak_order [of sample_builtins
      "\<lparr>ts_name = ''Alpha'', ts_tests = 3, ts_errors = 0, ts_failures = 2, ts_skipped = 0,
        ts_time = Finite False 0 0, ts_testcases = [], ts_success = None, ts_icon_class = None\<rparr>"
      "\<lparr>ts_name = ''beta'', ts_tests = 3, ts_errors = 0, ts_failures = 2, ts_skipped = 0,
        ts_time = Finite False 0 0, ts_testcases = [], ts_success = None, ts_icon_class = None\<rparr>"
      "\<lparr>ts_name = ''beta'', ts_tests = 3, ts_errors = 0, ts_failures = 2, ts_skipped = 0,
        ts_time = Finite False 0 0, ts_testcases = [], ts_success = None, ts_icon_class = None\<rparr>"]
  by (simp add: lower_Alpha lower_beta tuple_gt_def)

text \<open>
  C4 as stated fails: the order is not total. Two different suites with equal errors and
  failures whose names differ in case only are unordered: neither sorts before the other.
  So are two different suites with equal errors and failures and the same name.
\<close>

theorem suite_lt_total_counterexample:
  "\<lparr>ts_name = ''Alpha'', ts_tests = 3, ts_errors = 0, ts_failures = 2, ts_skipped = 0,
     ts_time = Finite False 0 0, ts_testcases = [], ts_success = None, ts_icon_class = None\<rparr>
   \<noteq>
   \<lparr>ts_name = ''alpha'', ts_tests = 3, ts_errors = 0, ts_failures = 2, ts_skipped = 0,
     ts_time = Finite False 0 0, ts_testcases = [], ts_success = None, ts_icon_class = None\<rparr> \<and>
   \<not> suite_lt sample_builtins
     \<lparr>ts_name = ''Alpha'', ts_tests = 3, ts_errors = 0, ts_failures = 2, ts_skipped = 0,
      ts_time = Finite False 0 0, ts_testcases = [], ts_success = None, ts_icon_class = None\<rparr>
     \<lparr>ts_name = ''alpha'', ts_tests = 3, ts_errors = 0, ts_failures = 2, ts_skipped = 0,
      ts_time = Finite False 0 0, ts_testcases = [], ts_success = None, ts_icon_class = None\<rparr> \<and>
   \<not> suite_lt sample_builtins
     \<lparr>ts_name = ''alpha'', ts_tests = 3, ts_errors = 0, ts_failures = 2, ts_skipped = 0,
      ts_time = Finite False 0 0, ts_testcases = [], ts_success = None, ts_icon_class = None\<rparr>
     \<lparr>ts_name = ''Alpha'', ts_tests = 3, ts_errors = 0, ts_failures = 2, ts_skipped = 0,
      ts_time = Finite False 0 0, ts_testcases = [], ts_success = None, ts_icon_class = None\<rparr> \<and>
   \<lparr>ts_name = ''alpha'', ts_tests = 3, ts_errors = 0, ts_failures = 2, ts_skipped = 0,
     ts_time = Finite False 0 0, ts_testcases = [], ts_success = None, ts_icon_class = None\<rparr>
   \<noteq>
   \<lparr>ts_name = ''alpha'', ts_tests = 5, ts_errors = 0, ts_failures = 2, ts_skipped = 0,
     ts_time = Finite False 0 0, ts_testcases = [], ts_success = None, ts_icon_class = None\<rparr> \<and>
   \<not> suite_lt sample_builtins
     \<lparr>ts_name = ''alpha'', ts_tests = 3, ts_errors = 0, ts_failures = 2, ts_skipped = 0,
      ts_time = Finite False 0 0, ts_testcases = [], ts_success = None, ts_icon_class = None\<rparr>
     \<lparr>ts_name = ''alpha'', ts_tests = 5, ts_errors = 0, ts_failures = 2, ts_skipped = 0,
      ts_time = Finite False 0 0, ts_testcases = [], ts_success = None, ts_icon_class = None\<rparr> \<and>
   \<not> suite_lt sample_builtins
     \<lparr>ts_name = ''alpha'', ts_tests = 5, ts_errors = 0, ts_failures = 2, ts_skipped = 0,
      ts_time = Finite False 0 0, ts_testcases = [], ts_success = None, ts_icon_class = None\<rparr>
     \<lparr>ts_name = ''alpha'', ts_tests = 3, ts_errors = 0, ts_failures = 2, ts_skipped = 0,
      ts_time = Finite False 0 0, ts_testcases = [], ts_success = None, ts_icon_class = None\<rparr>"
  by (simp add: suite_lt_def tuple_gt_def lower_Alpha lower_alpha)

section \<open>The parser\<close>

lemma fault_loop_Nil_or_last:
  "fault_loop acc fs = Inr r \<Longrightarrow>
     (fs = [] \<longrightarrow> r = acc) \<and>
     (fs \<noteq> [] \<longrightarrow> (\<exists>ty. el_attrib (last fs) ''type'' = Some ty \<and>
         r = Some \<lparr>ftype = ty, message = el_text (last fs)\<rparr>))"
proof (induction fs arbitrary: acc)
  case Nil
  then show ?case by simp
next
  case (Cons f fs)
  then show ?case
    by (cases "el_attrib f ''type''"; cases "fs = []") auto
qed

lemma fault_loop_fails:
  "f \<in> set fs \<Longrightarrow> el_attrib f ''type'' = None \<Longrightarrow> fault_loop acc fs = Inl (KeyError ''type'')"
proof (induction fs arbitrary: acc)
  case Nil
  then show ?case by simp
next
  case (Cons g fs)
  then show ?case by (cases "el_attrib g ''type''") auto
qed

lemma fault_loop_error: "fault_loop acc fs = Inl e \<Longrightarrow> e = KeyError ''type''"
  by (induction fs arbitrary: acc) (auto split: option.splits)

lemma fault_loop_succeeds:
  "\<forall>f \<in> set fs. el_attrib f ''type'' \<noteq> None \<Longrightarrow> \<exists>r. fault_loop acc fs = Inr r"
  by (induction fs arbitrary: acc) auto

lemma skipped_loop_eq: "skipped_loop acc ss = (acc \<or> ss \<noteq> [])"
  by (induction ss arbitrary: acc) auto

lemma iter_below:
  "el_tag e \<noteq> tg \<Longrightarrow> iter tg e = concat (map (iter tg) (el_children e))"
  by (cases e) (simp add: iter_def [abs_def] filter_concat comp_def)

lemma ReportTestCase_init_fields:
  "ReportTestCase_init b n t fl er sk = Inr c \<Longrightarrow>
     tc_name c = n \<and> tc_failure c = fl \<and> tc_error c = er \<and> tc_skipped c = sk"
  by (auto simp: ReportTestCase_init_def split: sum.splits)

lemma parse_testcase_fields:
  assumes "parse_testcase b tc = Inr c"
  shows "fault_loop None (iter ''failure'' tc) = Inr (tc_failure c)"
    and "fault_loop None (iter ''error'' tc) = Inr (tc_error c)"
    and "tc_skipped c = skipped_loop False (iter ''skipped'' tc)"
    and "el_attrib tc ''name'' = Some (tc_name c)"
  using assms
  by (auto simp: parse_testcase_def Let_def split: sum.splits option.splits
      dest!: ReportTestCase_init_fields)

lemma parse_testcase_type_missing:
  assumes "f \<in> set (iter ''failure'' tc) \<union> set (iter ''error'' tc)"
    and "el_attrib f ''type'' = None"
  shows "parse_testcase b tc = Inl (KeyError ''type'')"
proof (cases "f \<in> set (iter ''failure'' tc)")
  case True
  then have "fault_loop None (iter ''failure'' tc) = Inl (KeyError ''type'')"
    using assms(2) by (rule fault_loop_fails)
  then show ?thesis by (simp add: parse_testcase_def)
next
  case False
  then have "f \<in> set (iter ''error'' tc)" using assms(1) by simp
  then have e: "fault_loop None (iter ''error'' tc) = Inl (KeyError ''type'')"
    using assms(2) by (rule fault_loop_fails)
  show ?thesis
  proof (cases "fault_loop None (iter ''failure'' tc)")
    case (Inl x)
    then show ?thesis using fault_loop_error [OF Inl] by (simp add: parse_testcase_def)
  next
    case (Inr r)
    then show ?thesis using e by (simp add: parse_testcase_def)
  qed
qed

lemma parse_testcases_fails:
  "tc \<in> set tcs \<Longrightarrow> parse_testcase b tc = Inl e \<Longrightarrow> \<exists>e'. parse_testcases b tcs = Inl e'"
proof (induction tcs)
  case Nil
  then show ?case by simp
next
  case (Cons x xs)
  then show ?case
    by (cases "parse_testcase b x"; cases "parse_testcases b xs") auto
qed

lemma parse_testcases_length:
  "parse_testcases b tcs = Inr cs \<Longrightarrow> length cs = length tcs"
  by (induction tcs arbitrary: cs) (auto split: sum.splits)

lemma parse_testcases_nth:
  "parse_testcases b tcs = Inr cs \<Longrightarrow> i < length tcs \<Longrightarrow> parse_testcase b (tcs ! i) = Inr (cs ! i)"
proof (induction tcs arbitrary: cs i)
  case Nil
  then show ?case by simp
next
  case (Cons x xs)
  then show ?case by (cases i) (auto split: sum.splits)
qed

lemma ReportTestSuite_init_testcases:
  "ReportTestSuite_init b n t e f s tm cs = Inr x \<Longrightarrow> ts_testcases x = cs"
  by (auto simp: ReportTestSuite_init_def split: sum.splits)

lemma parse_testsuite_testcases:
  "parse_testsuite b cs ts = Inr s \<Longrightarrow> ts_testcases s = cs"
  by (auto simp: parse_testsuite_def Let_def split: option.splits
      dest: ReportTestSuite_init_testcases)

lemma parse_testsuites_testcases:
  "parse_testsuites b cs tss = Inr ss \<Longrightarrow>
     length ss = length tss \<and> (\<forall>s \<in> set ss. ts_testcases s = cs)"
  by (induction tss arbitrary: ss)
     (auto split: sum.splits dest: parse_testsuite_testcases)

lemma parse_testsuites_fails:
  "ts \<in> set tss \<Longrightarrow> parse_testsuite b cs ts = Inl e \<Longrightarrow> \<exists>e'. parse_testsuites b cs tss = Inl e'"
proof (induction tss)
  case Nil
  then show ?case by simp
next
  case (Cons x xs)
  then show ?case
    by (cases "parse_testsuite b cs x"; cases "parse_testsuites b cs xs") auto
qed

lemma parse_files_loop_fails:
  "f \<in> set fs \<Longrightarrow> parse_xml_file b f = Inl e \<Longrightarrow> \<exists>e'. parse_files_loop b acc fs = Inl e'"
proof (induction fs arbitrary: acc)
  case Nil
  then show ?case by simp
next
  case (Cons x xs)
  then show ?case by (cases "parse_xml_file b x") auto
qed

lemma parse_files_loop_first_failure:
  "\<forall>g \<in> set pre. \<exists>ss. parse_xml_file b g = Inr ss \<Longrightarrow> parse_xml_file b f = Inl e \<Longrightarrow>
     parse_files_loop b acc (pre @ f # post) = Inl e"
  by (induction pre arbitrary: acc) auto

lemma report_parse_failure:
  "parse_xml_files b (xml_dir fs) = Inl e \<Longrightarrow> report b render p fs = (Inl e, fs)"
  by (simp add: report_def)

lemma report_changes_only_after_parsing:
  "snd (report b render p fs) \<noteq> fs \<Longrightarrow> \<exists>suites. parse_xml_files b (xml_dir fs) = Inr suites"
  by (cases "parse_xml_files b (xml_dir fs)") (auto simp: report_def)

lemma zero_float: "int_to_float 0 = Inr (Finite False 0 0)"
  by (simp add: int_to_float_def round_double_def)

lemma sample_testcase_parse:
  "parse_testcase sample_builtins sample_testcase =
     Inr \<lparr>tc_name = ''t1'', tc_time = Finite False 3 1,
          tc_failure = Some \<lparr>ftype = ''B'', message = Some ''second''\<rparr>,
          tc_error = Some \<lparr>ftype = ''E'', message = None\<rparr>, tc_skipped = True\<rparr>"
  by (simp add: parse_testcase_def sample_testcase_def sample_builtins_def iter_def
      ReportTestCase_init_def py_float_def)

lemma sample_root_parse:
  "parse_xml_file sample_builtins (Document sample_root) =
     Inr [\<lparr>ts_name = ''s1'', ts_tests = 1, ts_errors = 0, ts_failures = 0, ts_skipped = 0,
           ts_time = Finite False 3 1,
           ts_testcases =
             [Case \<lparr>tc_name = ''a'', tc_time = Finite False 0 0, tc_failure = None,
                    tc_error = None, tc_skipped = False\<rparr>,
              Case \<lparr>tc_name = ''b'', tc_time = Finite False 3 1,
                    tc_failure = Some \<lparr>ftype = ''X'', message = Some ''msg''\<rparr>,
                    tc_error = None, tc_skipped = False\<rparr>],
           ts_success = None, ts_icon_class = None\<rparr>,
          \<lparr>ts_name = ''s2'', ts_tests = 1, ts_errors = 0, ts_failures = 1, ts_skipped = 0,
           ts_time = Finite False 3 1,
           ts_testcases =
             [Case \<lparr>tc_name = ''a'', tc_time = Finite False 0 0, tc_failure = None,
                    tc_error = None, tc_skipped = False\<rparr>,
              Case \<lparr>tc_name = ''b'', tc_time = Finite False 3 1,
                    tc_failure = Some \<lparr>ftype = ''X'', message = Some ''msg''\<rparr>,
                    tc_error = None, tc_skipped = False\<rparr>],
           ts_success = None, ts_icon_class = None\<rparr>]"
  by (simp add: parse_xml_file_def ET_parse_getroot_def sample_root_def sample_builtins_def
      iter_def parse_testcase_def ReportTestCase_init_def py_float_def py_int_def zero_float
      parse_testsuite_def ReportTestSuite_init_def)

lemma sample_no_tests_parse:
  "parse_xml_file sample_builtins (Document sample_no_tests) = Inl (KeyError ''tests'')"
  by (simp add: parse_xml_file_def ET_parse_getroot_def sample_no_tests_def iter_def
      parse_testsuite_def)

lemma sample_bad_count_parse:
  "parse_xml_file sample_builtins (Document sample_bad_count) = Inl ValueError"
  by (simp add: parse_xml_file_def ET_parse_getroot_def sample_bad_count_def iter_def
      parse_testsuite_def ReportTestSuite_init_def py_int_def sample_builtins_def)

lemma sample_no_type_parse:
  "parse_xml_file sample_builtins (Document sample_no_type) = Inl (KeyError ''type'')"
  by (simp add: parse_xml_file_def ET_parse_getroot_def sample_no_type_def iter_def
      parse_testcase_def)

lemma glob_sample: "glob_match ''TEST-a.xml''" "glob_match ''TEST-b.xml''" "\<not> glob_match ''notes.txt''"
  by (simp_all add: glob_match_def)


text \<open>
  C7. When a \<^verbatim>\<open><testcase>\<close> element is parsed, the failure record of the resulting case
  is built from the last \<^verbatim>\<open><failure>\<close> element that \<^verbatim>\<open>testcase.iter('failure')\<close> yields (document
  order), with its type and text, and there is none when no such element exists; the same
  for the error record and the \<^verbatim>\<open><error>\<close> elements; the skipped flag is set exactly when
  there is a \<^verbatim>\<open><skipped>\<close> element. For an element whose tag is \<^verbatim>\<open>testcase\<close> the elements
  found are those below it.
\<close>

theorem parse_testcase_last_wins:
  assumes "parse_testcase b tc = Inr c"
  shows "(iter ''failure'' tc = [] \<longrightarrow> tc_failure c = None) \<and>
         (iter ''failure'' tc \<noteq> [] \<longrightarrow>
            (\<exists>ty. el_attrib (last (iter ''failure'' tc)) ''type'' = Some ty \<and>
                  tc_failure c = Some \<lparr>ftype = ty, message = el_text (last (iter ''failure'' tc))\<rparr>)) \<and>
         (iter ''error'' tc = [] \<longrightarrow> tc_error c = None) \<and>
         (iter ''error'' tc \<noteq> [] \<longrightarrow>
            (\<exists>ty. el_attrib (last (iter ''error'' tc)) ''type'' = Some ty \<and>
                  tc_error c = Some \<lparr>ftype = ty, message = el_text (last (iter ''error'' tc))\<rparr>)) \<and>
         (tc_skipped c \<longleftrightarrow> iter ''skipped'' tc \<noteq> []) \<and>
         (el_tag tc = ''testcase'' \<longrightarrow>
            iter ''failure'' tc = concat (map (iter ''failure'') (el_children tc)) \<and>
            iter ''error'' tc = concat (map (iter ''error'') (el_children tc)) \<and>
            iter ''skipped'' tc = concat (map (iter ''skipped'') (el_children tc)))"
proof -
  note f = parse_testcase_fields [OF assms]
  have below: "el_tag tc = ''testcase'' \<longrightarrow>
      iter ''failure'' tc = concat (map (iter ''failure'') (el_children tc)) \<and>
      iter ''error'' tc = concat (map (iter ''error'') (el_children tc)) \<and>
      iter ''skipped'' tc = concat (map (iter ''skipped'') (el_children tc))"
    by (simp add: iter_below)
  show ?thesis
    using fault_loop_Nil_or_last [OF f(1)] fault_loop_Nil_or_last [OF f(2)] f(3) below
    by (simp add: skipped_loop_eq)
qed

theorem parse_testcase_last_wins_witness:
  "parse_testcase sample_builtins sample_testcase =
     Inr \<lparr>tc_name = ''t1'', tc_time = Finite False 3 1,
          tc_failure = Some \<lparr>ftype = ''B'', message = Some ''second''\<rparr>,
          tc_error = Some \<lparr>ftype = ''E'', message = None\<rparr>, tc_skipped = True\<rparr> \<and>
   map el_text (iter ''failure'' sample_testcase) = [Some ''first'', Some ''second''] \<and>
   iter ''skipped'' sample_testcase \<noteq> []"
proof -
  note h = sample_testcase_parse
  show ?thesis
    using h parse_testcase_last_wins [OF h]
    by (simp add: sample_testcase_def iter_def)
qed

text \<open>
  C6. When a file is parsed, every suite built from a \<^verbatim>\<open><testsuite>\<close> element of the file
  has as its \<^verbatim>\<open>testcases\<close> the one list of the cases of all \<^verbatim>\<open><testcase>\<close> elements of the
  whole file, one case per element and one suite per \<^verbatim>\<open><testsuite>\<close> element: the cases are
  not divided among the suites. (In Python it is one list object; nothing in the module
  changes it in place.)
\<close>

theorem parse_xml_file_shared_cases:
  assumes "parse_xml_file b f = Inr suites"
  shows "\<exists>root cases. f = Document root \<and>
           parse_testcases b (iter ''testcase'' root) = Inr cases \<and>
           length cases = length (iter ''testcase'' root) \<and>
           length suites = length (iter ''testsuite'' root) \<and>
           (\<forall>s \<in> set suites. ts_testcases s = map Case cases)"
proof (cases f)
  case Unreadable
  then show ?thesis using assms by (simp add: parse_xml_file_def ET_parse_getroot_def)
next
  case Malformed
  then show ?thesis using assms by (simp add: parse_xml_file_def ET_parse_getroot_def)
next
  case (Document root)
  show ?thesis
  proof (cases "parse_testcases b (iter ''testcase'' root)")
    case (Inl x)
    then show ?thesis
      using assms Document by (simp add: parse_xml_file_def ET_parse_getroot_def)
  next
    case (Inr cases)
    then have "parse_testsuites b (map Case cases) (iter ''testsuite'' root) = Inr suites"
      using assms Document by (simp add: parse_xml_file_def ET_parse_getroot_def)
    then show ?thesis
      using Document Inr parse_testcases_length [OF Inr] parse_testsuites_testcases
      by blast
  qed
qed

theorem parse_xml_file_shared_cases_witness:
  "(\<exists>s1 s2 c1 c2. parse_xml_file sample_builtins (Document sample_root) = Inr [s1, s2] \<and>
      ts_name s1 = ''s1'' \<and> ts_name s2 = ''s2'' \<and> tc_name c1 = ''a'' \<and> tc_name c2 = ''b'' \<and>
      ts_testcases s1 = [Case c1, Case c2] \<and> ts_testcases s2 = [Case c1, Case c2]) \<and>
   length (iter ''testsuite'' sample_root) = 2 \<and> length (iter ''testcase'' sample_root) = 2"
proof -
  note h = sample_root_parse
  have "length (iter ''testsuite'' sample_root) = 2 \<and> length (iter ''testcase'' sample_root) = 2"
    using parse_xml_file_shared_cases [OF h] by (simp add: sample_root_def iter_def)
  then show ?thesis using h by simp
qed


lemma parse_testsuite_missing:
  assumes "k \<in> set [''name'', ''tests'', ''errors'', ''failures'', ''time'']"
    and "el_attrib ts k = None"
  shows "\<exists>k' \<in> set [''name'', ''tests'', ''errors'', ''failures'', ''time''].
           el_attrib ts k' = None \<and> parse_testsuite b cs ts = Inl (KeyError k')"
proof -
  consider "el_attrib ts ''name'' = None"
    | "el_attrib ts ''name'' \<noteq> None" "el_attrib ts ''tests'' = None"
    | "el_attrib ts ''name'' \<noteq> None" "el_attrib ts ''tests'' \<noteq> None"
      "el_attrib ts ''errors'' = None"
    | "el_attrib ts ''name'' \<noteq> None" "el_attrib ts ''tests'' \<noteq> None"
      "el_attrib ts ''errors'' \<noteq> None" "el_attrib ts ''failures'' = None"
    | "el_attrib ts ''name'' \<noteq> None" "el_attrib ts ''tests'' \<noteq> None"
      "el_attrib ts ''errors'' \<noteq> None" "el_attrib ts ''failures'' \<noteq> None"
      "el_attrib ts ''time'' = None"
    using assms by auto
  then show ?thesis
  proof cases
    case 1
    then show ?thesis by (simp add: parse_testsuite_def)
  next
    case 2
    then show ?thesis by (auto simp: parse_testsuite_def)
  next
    case 3
    then show ?thesis by (auto simp: parse_testsuite_def)
  next
    case 4
    then show ?thesis by (auto simp: parse_testsuite_def)
  next
    case 5
    then show ?thesis by (auto simp: parse_testsuite_def Let_def)
  qed
qed

lemma parse_testsuite_present:
  assumes "el_attrib ts ''name'' = Some n" "el_attrib ts ''tests'' = Some t"
    "el_attrib ts ''errors'' = Some e" "el_attrib ts ''failures'' = Some f"
    "el_attrib ts ''time'' = Some tm"
  shows "parse_testsuite b cs ts =
           ReportTestSuite_init b n (PyStr t) (PyStr e) (PyStr f)
             (case el_attrib ts ''skipped'' of None \<Rightarrow> PyInt 0 | Some s \<Rightarrow> PyStr s) (PyStr tm) cs"
  using assms by (simp add: parse_testsuite_def Let_def)

text \<open>
  C8, as the code has it. For a \<^verbatim>\<open><testsuite>\<close> element: when one of \<^verbatim>\<open>name\<close>,
  \<^verbatim>\<open>tests\<close>, \<^verbatim>\<open>errors\<close>, \<^verbatim>\<open>failures\<close>, \<^verbatim>\<open>time\<close> is absent the parser raises KeyError
  for an absent one; when the five are present and one of the three counts is not the
  text of an int, or the time is not the text of a float, it raises ValueError; when
  \<^verbatim>\<open>skipped\<close> is absent the suite is built with \<open>skipped = 0\<close>; when \<^verbatim>\<open>skipped\<close> is
  present it is converted like the other counts.
\<close>

theorem parse_testsuite_attributes:
  "(k \<in> set [''name'', ''tests'', ''errors'', ''failures'', ''time''] \<and> el_attrib ts k = None
      \<longrightarrow> (\<exists>k' \<in> set [''name'', ''tests'', ''errors'', ''failures'', ''time''].
             el_attrib ts k' = None \<and> parse_testsuite b cs ts = Inl (KeyError k'))) \<and>
   (el_attrib ts ''name'' = Some n \<and> el_attrib ts ''tests'' = Some t \<and>
    el_attrib ts ''errors'' = Some e \<and> el_attrib ts ''failures'' = Some f \<and>
    el_attrib ts ''time'' = Some tm \<and>
    (int_of_str b t = None \<or> int_of_str b e = None \<or> int_of_str b f = None)
      \<longrightarrow> parse_testsuite b cs ts = Inl ValueError) \<and>
   (el_attrib ts ''name'' = Some n \<and> el_attrib ts ''tests'' = Some t \<and>
    el_attrib ts ''errors'' = Some e \<and> el_attrib ts ''failures'' = Some f \<and>
    el_attrib ts ''time'' = Some tm \<and>
    int_of_str b t = Some t' \<and> int_of_str b e = Some e' \<and> int_of_str b f = Some f' \<and>
    el_attrib ts ''skipped'' = None \<and> float_of_str b tm = Some x
      \<longrightarrow> parse_testsuite b cs ts =
            Inr \<lparr>ts_name = n, ts_tests = t', ts_errors = e', ts_failures = f', ts_skipped = 0,
                 ts_time = x, ts_testcases = cs, ts_success = None, ts_icon_class = None\<rparr>) \<and>
   (el_attrib ts ''name'' = Some n \<and> el_attrib ts ''tests'' = Some t \<and>
    el_attrib ts ''errors'' = Some e \<and> el_attrib ts ''failures'' = Some f \<and>
    el_attrib ts ''time'' = Some tm \<and>
    int_of_str b t = Some t' \<and> int_of_str b e = Some e' \<and> int_of_str b f = Some f' \<and>
    el_attrib ts ''skipped'' = Some sk \<and> float_of_str b tm = Some x
      \<longrightarrow> parse_testsuite b cs ts =
            (case int_of_str b sk of
               None \<Rightarrow> Inl ValueError
             | Some s' \<Rightarrow>
                 Inr \<lparr>ts_name = n, ts_tests = t', ts_errors = e', ts_failures = f',
                      ts_skipped = s', ts_time = x, ts_testcases = cs, ts_success = None,
                      ts_icon_class = None\<rparr>)) \<and>
   (el_attrib ts ''name'' = Some n \<and> el_attrib ts ''tests'' = Some t \<and>
    el_attrib ts ''errors'' = Some e \<and> el_attrib ts ''failures'' = Some f \<and>
    el_attrib ts ''time'' = Some tm \<and> float_of_str b tm = None
      \<longrightarrow> parse_testsuite b cs ts = Inl ValueError)"
proof -
  have 1: "k \<in> set [''name'', ''tests'', ''errors'', ''failures'', ''time''] \<and> el_attrib ts k = None
      \<longrightarrow> (\<exists>k' \<in> set [''name'', ''tests'', ''errors'', ''failures'', ''time''].
             el_attrib ts k' = None \<and> parse_testsuite b cs ts = Inl (KeyError k'))"
    using parse_testsuite_missing [of k ts b cs] by blast
  have 2: "el_attrib ts ''name'' = Some n \<and> el_attrib ts ''tests'' = Some t \<and>
    el_attrib ts ''errors'' = Some e \<and> el_attrib ts ''failures'' = Some f \<and>
    el_attrib ts ''time'' = Some tm \<and>
    (int_of_str b t = None \<or> int_of_str b e = None \<or> int_of_str b f = None)
      \<longrightarrow> parse_testsuite b cs ts = Inl ValueError"
    by (auto simp: parse_testsuite_present ReportTestSuite_init_def py_int_def
        split: option.splits sum.splits)
  have 3: "el_attrib ts ''name'' = Some n \<and> el_attrib ts ''tests'' = Some t \<and>
    el_attrib ts ''errors'' = Some e \<and> el_attrib ts ''failures'' = Some f \<and>
    el_attrib ts ''time'' = Some tm \<and>
    int_of_str b t = Some t' \<and> int_of_str b e = Some e' \<and> int_of_str b f = Some f' \<and>
    el_attrib ts ''skipped'' = None \<and> float_of_str b tm = Some x
      \<longrightarrow> parse_testsuite b cs ts =
            Inr \<lparr>ts_name = n, ts_tests = t', ts_errors = e', ts_failures = f', ts_skipped = 0,
                 ts_time = x, ts_testcases = cs, ts_success = None, ts_icon_class = None\<rparr>"
    by (simp add: parse_testsuite_present ReportTestSuite_init_def py_int_def py_float_def)
  have 4: "el_attrib ts ''name'' = Some n \<and> el_attrib ts ''tests'' = Some t \<and>
    el_attrib ts ''errors'' = Some e \<and> el_attrib ts ''failures'' = Some f \<and>
    el_attrib ts ''time'' = Some tm \<and>
    int_of_str b t = Some t' \<and> int_of_str b e = Some e' \<and> int_of_str b f = Some f' \<and>
    el_attrib ts ''skipped'' = Some sk \<and> float_of_str b tm = Some x
      \<longrightarrow> parse_testsuite b cs ts =
            (case int_of_str b sk of
               None \<Rightarrow> Inl ValueError
             | Some s' \<Rightarrow>
                 Inr \<lparr>ts_name = n, ts_tests = t', ts_errors = e', ts_failures = f',
                      ts_skipped = s', ts_time = x, ts_testcases = cs, ts_success = None,
                      ts_icon_class = None\<rparr>)"
    by (simp add: parse_testsuite_present ReportTestSuite_init_def py_int_def py_float_def
        split: option.splits)
  have 5: "el_attrib ts ''name'' = Some n \<and> el_attrib ts ''tests'' = Some t \<and>
    el_attrib ts ''errors'' = Some e \<and> el_attrib ts ''failures'' = Some f \<and>
    el_attrib ts ''time'' = Some tm \<and> float_of_str b tm = None
      \<longrightarrow> parse_testsuite b cs ts = Inl ValueError"
    by (auto simp: parse_testsuite_present ReportTestSuite_init_def py_int_def py_float_def
        split: option.splits sum.splits pyval.splits)
  show ?thesis using 1 2 3 4 5 by blast
qed

theorem parse_testsuite_attributes_witness:
  "parse_testsuite sample_builtins []
     (Element ''testsuite''
        [''name'' \<mapsto> ''s'', ''errors'' \<mapsto> ''0'', ''failures'' \<mapsto> ''0'', ''time'' \<mapsto> ''1.5''] None [])
     = Inl (KeyError ''tests'') \<and>
   parse_testsuite sample_builtins []
     (Element ''testsuite''
        [''name'' \<mapsto> ''s'', ''tests'' \<mapsto> ''many'', ''errors'' \<mapsto> ''0'', ''failures'' \<mapsto> ''0'',
         ''time'' \<mapsto> ''1.5''] None [])
     = Inl ValueError \<and>
   parse_testsuite sample_builtins []
     (Element ''testsuite''
        [''name'' \<mapsto> ''s'', ''tests'' \<mapsto> ''2'', ''errors'' \<mapsto> ''0'', ''failures'' \<mapsto> ''1'',
         ''time'' \<mapsto> ''1.5''] None [])
     = Inr \<lparr>ts_name = ''s'', ts_tests = 2, ts_errors = 0, ts_failures = 1, ts_skipped = 0,
            ts_time = Finite False 3 1, ts_testcases = [], ts_success = None,
            ts_icon_class = None\<rparr>"
  using
    parse_testsuite_attributes [of "''tests''"
      "Element ''testsuite''
        [''name'' \<mapsto> ''s'', ''errors'' \<mapsto> ''0'', ''failures'' \<mapsto> ''0'', ''time'' \<mapsto> ''1.5''] None []"
      sample_builtins "[]" "''s''" "''0''" "''0''" "''0''" "''1.5''" 0 0 0 "Finite False 3 1" "''0''"]
    parse_testsuite_attributes [of "''tests''"
      "Element ''testsuite''
        [''name'' \<mapsto> ''s'', ''tests'' \<mapsto> ''many'', ''errors'' \<mapsto> ''0'', ''failures'' \<mapsto> ''0'',
         ''time'' \<mapsto> ''1.5''] None []"
      sample_builtins "[]" "''s''" "''many''" "''0''" "''0''" "''1.5''" 0 0 0 "Finite False 3 1" "''0''"]
    parse_testsuite_attributes [of "''tests''"
      "Element ''testsuite''
        [''name'' \<mapsto> ''s'', ''tests'' \<mapsto> ''2'', ''errors'' \<mapsto> ''0'', ''failures'' \<mapsto> ''1'',
         ''time'' \<mapsto> ''1.5''] None []"
      sample_builtins "[]" "''s''" "''2''" "''0''" "''1''" "''1.5''" 2 0 1 "Finite False 3 1" "''0''"]
  by (simp add: sample_builtins_def)

text \<open>
  C8 as stated fails: a suite without the attribute \<^verbatim>\<open>tests\<close> makes the parser raise
  KeyError, and a count that is not a number makes it raise ValueError; neither is
  ElementTree's ParseError.
\<close>

theorem parse_testsuite_ParseError_counterexample:
  "parse_xml_file sample_builtins (Document sample_no_tests) = Inl (KeyError ''tests'') \<and>
   parse_xml_file sample_builtins (Document sample_no_tests) \<noteq> Inl ParseError \<and>
   parse_xml_file sample_builtins (Document sample_bad_count) = Inl ValueError \<and>
   parse_xml_file sample_builtins (Document sample_bad_count) \<noteq> Inl ParseError"
  by (simp add: sample_no_tests_parse sample_bad_count_parse)

lemma parse_xml_file_testcase_fails:
  assumes "tc \<in> set (iter ''testcase'' root)" and "parse_testcase b tc = Inl e"
  shows "\<exists>e'. parse_xml_file b (Document root) = Inl e'"
proof -
  obtain e' where "parse_testcases b (iter ''testcase'' root) = Inl e'"
    using parse_testcases_fails [OF assms] by blast
  then show ?thesis by (simp add: parse_xml_file_def ET_parse_getroot_def)
qed

lemma report_file_fails:
  assumes "f \<in> set (glob_TEST_xml (xml_dir fs))" and "parse_xml_file b f = Inl e"
  shows "\<exists>e'. report b render p fs = (Inl e', fs)"
proof -
  obtain e' where "parse_files_loop b [] (glob_TEST_xml (xml_dir fs)) = Inl e'"
    using parse_files_loop_fails [OF assms] by blast
  then have "parse_xml_files b (xml_dir fs) = Inl e'"
    by (simp add: parse_xml_files_def)
  then show ?thesis using report_parse_failure by blast
qed

lemma as_dict_ignores_type:
  "ReportTestCase_as_dict
     (c\<lparr>tc_failure := map_option (\<lambda>r. r\<lparr>ftype := ty\<rparr>) (tc_failure c),
        tc_error := map_option (\<lambda>r. r\<lparr>ftype := ty'\<rparr>) (tc_error c)\<rparr>)
   = ReportTestCase_as_dict c"
  by (cases "tc_failure c"; cases "tc_error c")
     (simp_all add: ReportTestCase_as_dict_def ReportTestCase_icon_class_def truthy_def)

text \<open>
  C10. When a \<^verbatim>\<open><failure>\<close> or \<^verbatim>\<open><error>\<close> element found under a \<^verbatim>\<open><testcase>\<close> of the file
  has no \<^verbatim>\<open>type\<close> attribute, building that case raises KeyError for \<^verbatim>\<open>type\<close>, parsing the
  file fails, and \<^verbatim>\<open>report()\<close> on a directory with that file fails and leaves the file
  system as it was. The display dict of a case does not depend on the types of its
  failure and error records.
\<close>

theorem missing_type_aborts:
  assumes "tc \<in> set (iter ''testcase'' root)"
    and "f \<in> set (iter ''failure'' tc) \<union> set (iter ''error'' tc)"
    and "el_attrib f ''type'' = None"
  shows "parse_testcase b tc = Inl (KeyError ''type'') \<and>
         (\<exists>e. parse_xml_file b (Document root) = Inl e) \<and>
         (Document root \<in> set (glob_TEST_xml (xml_dir fs))
            \<longrightarrow> (\<exists>e. report b render p fs = (Inl e, fs))) \<and>
         ReportTestCase_as_dict
           (c\<lparr>tc_failure := map_option (\<lambda>r. r\<lparr>ftype := ty\<rparr>) (tc_failure c),
              tc_error := map_option (\<lambda>r. r\<lparr>ftype := ty'\<rparr>) (tc_error c)\<rparr>)
         = ReportTestCase_as_dict c"
proof -
  have 1: "parse_testcase b tc = Inl (KeyError ''type'')"
    using assms(2,3) by (rule parse_testcase_type_missing)
  obtain e where 2: "parse_xml_file b (Document root) = Inl e"
    using parse_xml_file_testcase_fails [OF assms(1) 1] by blast
  have 3: "Document root \<in> set (glob_TEST_xml (xml_dir fs))
            \<longrightarrow> (\<exists>e. report b render p fs = (Inl e, fs))"
    using report_file_fails 2 by blast
  show ?thesis using 1 2 3 as_dict_ignores_type by blast
qed

theorem missing_type_aborts_witness:
  "parse_xml_file sample_builtins (Document sample_no_type) = Inl (KeyError ''type'') \<and>
   report sample_builtins sample_render ''out''
     \<lparr>xml_dir = [(''TEST-a.xml'', Document sample_root), (''TEST-b.xml'', Document sample_no_type)],
      report_dir_exists = False, report_file = None, writable = True\<rparr>
   = (Inl (KeyError ''type''),
      \<lparr>xml_dir = [(''TEST-a.xml'', Document sample_root), (''TEST-b.xml'', Document sample_no_type)],
       report_dir_exists = False, report_file = None, writable = True\<rparr>)"
proof -
  let ?tc = "Element ''testcase'' [''name'' \<mapsto> ''a''] None
          [Element ''failure'' Map.empty (Some ''msg'') []]"
  let ?f = "Element ''failure'' Map.empty (Some ''msg'') []"
  let ?fs = "\<lparr>xml_dir = [(''TEST-a.xml'', Document sample_root), (''TEST-b.xml'', Document sample_no_type)],
      report_dir_exists = False, report_file = None, writable = True\<rparr>"
  have a: "?tc \<in> set (iter ''testcase'' sample_no_type)"
    by (simp add: sample_no_type_def iter_def)
  have b: "?f \<in> set (iter ''failure'' ?tc) \<union> set (iter ''error'' ?tc)"
    by (simp add: iter_def)
  have c: "el_attrib ?f ''type'' = None" by simp
  have g: "Document sample_no_type \<in> set (glob_TEST_xml (xml_dir ?fs))"
    by (simp add: glob_TEST_xml_def glob_sample)
  obtain e where e: "report sample_builtins sample_render ''out'' ?fs = (Inl e, ?fs)"
    using missing_type_aborts [OF a b c, of sample_builtins ?fs sample_render "''out''"] g by blast
  have "parse_xml_files sample_builtins (xml_dir ?fs) = Inl (KeyError ''type'')"
    by (simp add: parse_xml_files_def glob_TEST_xml_def glob_sample sample_root_parse
        sample_no_type_parse)
  then have "report sample_builtins sample_render ''out'' ?fs = (Inl (KeyError ''type''), ?fs)"
    by (rule report_parse_failure)
  then show ?thesis using e sample_no_type_parse by simp
qed


lemma parse_xml_file_Malformed: "parse_xml_file b Malformed = Inl ParseError"
  by (simp add: parse_xml_file_def ET_parse_getroot_def)

lemma parse_xml_file_Unreadable: "parse_xml_file b Unreadable = Inl IOError"
  by (simp add: parse_xml_file_def ET_parse_getroot_def)

lemma report_first_failure:
  assumes "glob_TEST_xml (xml_dir fs) = pre @ f # post"
    and "\<forall>g \<in> set pre. \<exists>ss. parse_xml_file b g = Inr ss"
    and "parse_xml_file b f = Inl e"
  shows "report b render p fs = (Inl e, fs)"
proof -
  have "parse_files_loop b [] (pre @ f # post) = Inl e"
    using assms(2,3) by (rule parse_files_loop_first_failure)
  then have "parse_xml_files b (xml_dir fs) = Inl e"
    using assms(1) by (simp add: parse_xml_files_def)
  then show ?thesis by (rule report_parse_failure)
qed

text \<open>
  C5, as the code has it. When one of the \<^verbatim>\<open>TEST-*.xml\<close> files is not well-formed or
  cannot be read, \<^verbatim>\<open>report()\<close> fails and the file system is as before: no report file is
  created or changed. The exception is that of the first file, in glob's order, that
  fails: ParseError when that file is not well-formed, IOError when it cannot be read.
  Whatever exception the parsing raises leaves the file system unchanged; \<^verbatim>\<open>report()\<close>
  changes it only after every file has been parsed.
\<close>

theorem report_parse_failure_no_output:
  "(f \<in> set (glob_TEST_xml (xml_dir fs)) \<and> (f = Malformed \<or> f = Unreadable)
      \<longrightarrow> (\<exists>e. report b render p fs = (Inl e, fs))) \<and>
   (glob_TEST_xml (xml_dir fs) = pre @ f # post \<and>
    (\<forall>g \<in> set pre. \<exists>ss. parse_xml_file b g = Inr ss) \<and> f = Malformed
      \<longrightarrow> report b render p fs = (Inl ParseError, fs)) \<and>
   (glob_TEST_xml (xml_dir fs) = pre @ f # post \<and>
    (\<forall>g \<in> set pre. \<exists>ss. parse_xml_file b g = Inr ss) \<and> f = Unreadable
      \<longrightarrow> report b render p fs = (Inl IOError, fs)) \<and>
   (parse_xml_files b (xml_dir fs) = Inl e \<longrightarrow> report b render p fs = (Inl e, fs)) \<and>
   (snd (report b render p fs) \<noteq> fs
      \<longrightarrow> (\<exists>suites. parse_xml_files b (xml_dir fs) = Inr suites))"
proof -
  have 1: "f \<in> set (glob_TEST_xml (xml_dir fs)) \<and> (f = Malformed \<or> f = Unreadable)
      \<longrightarrow> (\<exists>e. report b render p fs = (Inl e, fs))"
    using report_file_fails [of f fs b] parse_xml_file_Malformed [of b]
      parse_xml_file_Unreadable [of b]
    by metis
  have 2: "glob_TEST_xml (xml_dir fs) = pre @ f # post \<and>
    (\<forall>g \<in> set pre. \<exists>ss. parse_xml_file b g = Inr ss) \<and> f = Malformed
      \<longrightarrow> report b render p fs = (Inl ParseError, fs)"
    using report_first_failure [of fs pre f post b ParseError] parse_xml_file_Malformed [of b]
    by blast
  have 3: "glob_TEST_xml (xml_dir fs) = pre @ f # post \<and>
    (\<forall>g \<in> set pre. \<exists>ss. parse_xml_file b g = Inr ss) \<and> f = Unreadable
      \<longrightarrow> report b render p fs = (Inl IOError, fs)"
    using report_first_failure [of fs pre f post b IOError] parse_xml_file_Unreadable [of b]
    by blast
  have 4: "parse_xml_files b (xml_dir fs) = Inl e \<longrightarrow> report b render p fs = (Inl e, fs)"
    using report_parse_failure by blast
  have 5: "snd (report b render p fs) \<noteq> fs
      \<longrightarrow> (\<exists>suites. parse_xml_files b (xml_dir fs) = Inr suites)"
    using report_changes_only_after_parsing by blast
  show ?thesis using 1 2 3 4 5 by blast
qed

theorem report_parse_failure_no_output_witness:
  "report sample_builtins sample_render ''out''
     \<lparr>xml_dir = [(''TEST-a.xml'', Document sample_root), (''notes.txt'', Unreadable),
                 (''TEST-b.xml'', Malformed)],
      report_dir_exists = True, report_file = Some ''old report'', writable = True\<rparr>
   = (Inl ParseError,
      \<lparr>xml_dir = [(''TEST-a.xml'', Document sample_root), (''notes.txt'', Unreadable),
                  (''TEST-b.xml'', Malformed)],
       report_dir_exists = True, report_file = Some ''old report'', writable = True\<rparr>)"
proof -
  let ?fs = "\<lparr>xml_dir = [(''TEST-a.xml'', Document sample_root), (''notes.txt'', Unreadable),
                 (''TEST-b.xml'', Malformed)],
      report_dir_exists = True, report_file = Some ''old report'', writable = True\<rparr>"
  have g: "glob_TEST_xml (xml_dir ?fs) = [Document sample_root] @ Malformed # []"
    by (simp add: glob_TEST_xml_def glob_sample)
  have ok: "\<forall>g \<in> set [Document sample_root]. \<exists>ss. parse_xml_file sample_builtins g = Inr ss"
    by (simp add: sample_root_parse)
  show ?thesis
    using report_parse_failure_no_output
      [of Malformed ?fs sample_builtins sample_render "''out''" "[Document sample_root]" "[]"]
      g ok
    by blast
qed

text \<open>
  C5 as stated fails: with an unreadable file \<^verbatim>\<open>report()\<close> raises IOError, and with a
  malformed file after one whose suite lacks \<^verbatim>\<open>tests\<close> it raises KeyError; neither is a
  ParseError.
\<close>

theorem report_ParseError_counterexample:
  "fst (report sample_builtins sample_render ''out''
     \<lparr>xml_dir = [(''TEST-a.xml'', Unreadable)],
      report_dir_exists = False, report_file = None, writable = True\<rparr>) = Inl IOError \<and>
   fst (report sample_builtins sample_render ''out''
     \<lparr>xml_dir = [(''TEST-a.xml'', Unreadable)],
      report_dir_exists = False, report_file = None, writable = True\<rparr>) \<noteq> Inl ParseError \<and>
   fst (report sample_builtins sample_render ''out''
     \<lparr>xml_dir = [(''TEST-a.xml'', Document sample_no_tests), (''TEST-b.xml'', Malformed)],
      report_dir_exists = False, report_file = None, writable = True\<rparr>)
     = Inl (KeyError ''tests'') \<and>
   fst (report sample_builtins sample_render ''out''
     \<lparr>xml_dir = [(''TEST-a.xml'', Document sample_no_tests), (''TEST-b.xml'', Malformed)],
      report_dir_exists = False, report_file = None, writable = True\<rparr>)
     \<noteq> Inl ParseError"
  by (simp add: report_def parse_xml_files_def glob_TEST_xml_def glob_sample
      parse_xml_file_Unreadable sample_no_tests_parse)

section \<open>Floats and the success rate\<close>

lemma round_half_even_le: "round_half_even P Q * Q \<le> 2 * P"
proof -
  define m0 where "m0 = P div Q"
  define r where "r = P mod Q"
  have eq: "m0 * Q + r = P" by (simp add: m0_def r_def)
  show ?thesis
  proof (cases "2 * r > Q \<or> (2 * r = Q \<and> odd m0)")
    case True
    then have "round_half_even P Q = m0 + 1"
      by (simp add: round_half_even_def m0_def r_def Let_def)
    moreover have "(m0 + 1) * Q = m0 * Q + Q" by (simp add: algebra_simps)
    moreover have "Q \<le> 2 * r" using True by auto
    ultimately have "(m0 + 1) * Q \<le> 2 * P" using eq by linarith
    then show ?thesis using \<open>round_half_even P Q = m0 + 1\<close> by simp
  next
    case False
    then have "round_half_even P Q = m0"
      by (simp add: round_half_even_def m0_def r_def Let_def)
    moreover have "m0 * Q \<le> 2 * P" using eq by linarith
    ultimately show ?thesis by simp
  qed
qed

lemma round_half_even_ge: "P div Q \<le> round_half_even P Q"
  by (simp add: round_half_even_def Let_def)

lemma round_half_even_one: "round_half_even P (Suc 0) = P"
  by (simp add: round_half_even_def Let_def)

lemma round_ratio_le:
  assumes "round_ratio p q = (num, d)"
  shows "num * q \<le> 2 * p * 2 ^ d"
proof -
  define sl where "sl = nat (- ulp_exponent p q)"
  define sr where "sr = nat (ulp_exponent p q)"
  define m where "m = round_half_even (p * 2 ^ sl) (q * 2 ^ sr)"
  have "num = m * 2 ^ sr" "d = sl"
    using assms unfolding round_ratio_def Let_def m_def sl_def sr_def by auto
  moreover have "m * (q * 2 ^ sr) \<le> 2 * (p * 2 ^ sl)"
    unfolding m_def by (rule round_half_even_le)
  ultimately show ?thesis by (simp add: mult_ac)
qed

lemma no_overflow_arith:
  fixes K D q p num :: nat
  assumes "0 < q" "0 < D" "p < K * q" "num * q \<le> 2 * p * D"
  shows "num < 2 * K * D"
proof (rule ccontr)
  assume "\<not> num < 2 * K * D"
  then have "2 * K * D \<le> num" by simp
  then have "2 * K * D * q \<le> num * q" by (rule mult_le_mono1)
  then have a: "K * q * (2 * D) \<le> num * q" by (simp add: mult_ac)
  have b: "p * (2 * D) < (K * q) * (2 * D)"
    using assms(2,3) by (intro mult_less_mono1) simp_all
  have c: "num * q \<le> p * (2 * D)" using assms(4) by (simp add: mult_ac)
  show False using a b c by linarith
qed

lemma round_ratio_no_overflow:
  assumes "0 < q" "p < 2 ^ 1023 * q"
  shows "\<not> overflows (round_ratio p q)"
proof -
  obtain num d where v: "round_ratio p q = (num, d)" by (cases "round_ratio p q")
  have "num < 2 * 2 ^ 1023 * 2 ^ d"
    using assms(1) _ assms(2) round_ratio_le [OF v] by (rule no_overflow_arith) simp
  moreover have "(2::nat) ^ 1024 = 2 * 2 ^ 1023" by simp
  ultimately show ?thesis using v by (simp add: overflows_def del: power_numeral)
qed


declare bitlen.simps [simp del]

lemma bitlen_pos: "0 < n \<Longrightarrow> 0 < bitlen n"
  by (subst bitlen.simps) simp

lemma bitlen_Suc_0: "bitlen (Suc 0) = Suc 0"
  by (simp add: bitlen.simps [of "Suc 0"] bitlen.simps [of 0])

lemma bitlen_lower: "0 < n \<Longrightarrow> 2 ^ (bitlen n - 1) \<le> n"
proof (induction n rule: bitlen.induct)
  case (1 n)
  show ?case
  proof (cases "n div 2 = 0")
    case True
    then have "n = 1" using "1.prems" by (simp add: div_eq_0_iff) 
    then show ?thesis by (simp add: bitlen_Suc_0)
  next
    case False
    then have IH: "2 ^ (bitlen (n div 2) - 1) \<le> n div 2"
      using "1.IH" "1.prems" by simp
    have b: "bitlen n = Suc (bitlen (n div 2))"
      using "1.prems" by (subst bitlen.simps) simp
    have "0 < bitlen (n div 2)" using False by (simp add: bitlen_pos)
    then have "bitlen n - 1 = Suc (bitlen (n div 2) - 1)" using b by simp
    then have "(2::nat) ^ (bitlen n - 1) = 2 * 2 ^ (bitlen (n div 2) - 1)" by simp
    also have "\<dots> \<le> 2 * (n div 2)" using IH by simp
    also have "\<dots> \<le> n" by simp
    finally show ?thesis .
  qed
qed


lemma ulp_exponent_int_le:
  assumes "0 < p"
  shows "ulp_exponent p 1 \<le> int (bitlen p) - 53"
proof -
  have "0 < bitlen p" using assms by (rule bitlen_pos)
  then show ?thesis
    by (simp add: ulp_exponent_def Let_def bitlen_Suc_0 del: power_numeral)
qed

lemma int_round_ge_one:
  assumes "0 < p" and "round_ratio p 1 = (num, d)"
  shows "2 ^ d \<le> num"
proof -
  define e where "e = ulp_exponent p 1"
  have num: "num = round_half_even (p * 2 ^ nat (- e)) (2 ^ nat e) * 2 ^ nat e"
    and d: "d = nat (- e)"
    using assms(2) unfolding round_ratio_def Let_def e_def by auto
  show ?thesis
  proof (cases "e \<le> 0")
    case True
    then have "num = p * 2 ^ d" using num d by (simp add: round_half_even_one)
    then show ?thesis using assms(1) by simp
  next
    case False
    then have d0: "d = 0" using d by simp
    have "e \<le> int (bitlen p) - 53" unfolding e_def using assms(1) by (rule ulp_exponent_int_le)
    then have "nat e \<le> bitlen p - 1" by linarith
    then have "(2::nat) ^ nat e \<le> 2 ^ (bitlen p - 1)" by (intro power_increasing) simp_all
    also have "\<dots> \<le> p" using assms(1) by (rule bitlen_lower)
    finally have le: "(2::nat) ^ nat e \<le> p" .
    have "1 \<le> p div 2 ^ nat e"
      using le by (simp add: Suc_le_eq div_greater_zero_iff)
    also have "\<dots> \<le> round_half_even p (2 ^ nat e)" by (rule round_half_even_ge)
    finally have "1 \<le> round_half_even p (2 ^ nat e)" .
    moreover have "nat (- e) = 0" using False by simp
    ultimately have "1 \<le> num" using num by (simp add: Suc_le_eq)
    then show ?thesis using d0 by simp
  qed
qed

lemma int_to_float_finite:
  assumes "n \<noteq> 0" and "\<bar>n\<bar> < 2 ^ 1023"
  shows "\<exists>num d. int_to_float n = Inr (Finite (n < 0) num d) \<and> 2 ^ d \<le> num \<and>
           num \<le> 2 * nat \<bar>n\<bar> * 2 ^ d"
proof -
  define p where "p = nat \<bar>n\<bar>"
  have p: "0 < p" "p < 2 ^ 1023 * 1"
    using assms unfolding p_def by (simp_all add: nat_less_iff del: power_numeral)
  obtain num d where v: "round_ratio p 1 = (num, d)" by (cases "round_ratio p 1")
  have "\<not> overflows (round_ratio p 1)" using _ p(2) by (rule round_ratio_no_overflow) simp
  then have "int_to_float n = Inr (Finite (n < 0) num d)"
    using p(1) v by (simp add: int_to_float_def round_double_def p_def [symmetric])
  moreover have "2 ^ d \<le> num" using p(1) v by (rule int_round_ge_one)
  moreover have "num \<le> 2 * p * 2 ^ d" using round_ratio_le [OF v] by simp
  ultimately show ?thesis unfolding p_def by blast
qed


declare decimal.simps [simp del]


lemma format_2f_zero: "format_2f (Finite False 0 0) = ''0.00''"
  by (simp add: round_half_even_def decimal.simps [of 0] digit_char_def)

lemma format_2f_neg_zero: "format_2f (Finite True 0 0) = ''-0.00''"
  by (simp add: round_half_even_def decimal.simps [of 0] digit_char_def)

lemma digit_char_digit: "d < 10 \<Longrightarrow> digit_char d \<in> set ''0123456789''"
  unfolding digit_char_def by (rule nth_mem) simp

lemma decimal_digits: "decimal n \<noteq> [] \<and> set (decimal n) \<subseteq> set ''0123456789''"
proof (induction n rule: decimal.induct)
  case (1 n)
  show ?case
  proof (cases "n < 10")
    case True
    then have "decimal n = [digit_char n]" by (simp add: decimal.simps [of n])
    then show ?thesis using digit_char_digit [OF True] by simp
  next
    case False
    then have "decimal n = decimal (n div 10) @ [digit_char (n mod 10)]"
      by (simp add: decimal.simps [of n])
    moreover have "digit_char (n mod 10) \<in> set ''0123456789''"
      by (rule digit_char_digit) simp
    ultimately show ?thesis using "1.IH" [OF False] by simp
  qed
qed

lemma format_2f_shape:
  "\<exists>ds c1 c2. format_2f (Finite s num dexp) = (if s then ''-'' else []) @ ds @ ''.'' @ [c1, c2] \<and>
     ds \<noteq> [] \<and> set ds \<subseteq> set ''0123456789'' \<and>
     c1 \<in> set ''0123456789'' \<and> c2 \<in> set ''0123456789''"
proof -
  define h where "h = round_half_even (num * 100) (2 ^ dexp)"
  have "format_2f (Finite s num dexp) =
      (if s then ''-'' else []) @ decimal (h div 100) @ ''.''
        @ [digit_char (h mod 100 div 10), digit_char (h mod 10)]"
    by (simp add: h_def Let_def)
  moreover have "digit_char (h mod 100 div 10) \<in> set ''0123456789''"
    by (rule digit_char_digit) (simp add: less_mult_imp_div_less)
  moreover have "digit_char (h mod 10) \<in> set ''0123456789''"
    by (rule digit_char_digit) simp
  ultimately show ?thesis using decimal_digits [of "h div 100"] by blast
qed

lemma round_double_finite:
  assumes "0 < q" "p < 2 ^ 1023 * q"
  shows "\<exists>num d. round_double s p q = Finite s num d \<and> num * q \<le> 2 * p * 2 ^ d"
proof (cases "p = 0")
  case True
  then show ?thesis by (simp add: round_double_def)
next
  case False
  obtain num d where v: "round_ratio p q = (num, d)" by (cases "round_ratio p q")
  have "\<not> overflows (round_ratio p q)" using assms by (rule round_ratio_no_overflow)
  then have "round_double s p q = Finite s num d"
    using False v by (simp add: round_double_def)
  then show ?thesis using round_ratio_le [OF v] by blast
qed

lemma scale_bound1:
  fixes na N D K :: nat
  assumes "na \<le> 2 * N * D" "200 * N < K" "0 < D"
  shows "na * 100 < K * D"
proof -
  have "na * 100 \<le> (2 * N * D) * 100" using assms(1) by (rule mult_le_mono1)
  also have "\<dots> = (200 * N) * D" by simp
  also have "\<dots> < K * D" using assms(2,3) by (intro mult_less_mono1) simp_all
  finally show ?thesis .
qed

lemma scale_cancel:
  fixes nA na N D E :: nat
  assumes "nA * D \<le> 2 * (na * 100) * E" "na \<le> 2 * N * D" "0 < D"
  shows "nA \<le> 400 * N * E"
proof -
  have "na * (200 * E) \<le> (2 * N * D) * (200 * E)" using assms(2) by (rule mult_le_mono1)
  then have "2 * (na * 100) * E \<le> (400 * N * E) * D" by (simp add: mult_ac)
  then have "nA * D \<le> (400 * N * E) * D" using assms(1) by linarith
  then show ?thesis using assms(3) by simp
qed

lemma scale_bound2:
  fixes nA N E F nb K :: nat
  assumes "nA \<le> 400 * N * E" "F \<le> nb" "400 * N < K" "0 < E" "0 < nb"
  shows "nA * F < K * (nb * E)"
proof -
  have "nA * F \<le> (400 * N * E) * nb" using assms(1,2) by (rule mult_le_mono)
  also have "\<dots> = (400 * N) * (nb * E)" by (simp add: mult_ac)
  also have "\<dots> < K * (nb * E)" using assms(3,4,5) by (intro mult_less_mono1) simp_all
  finally show ?thesis .
qed


lemma success_rate_zero_tests: "success_rate 0 e f s = Inr ''0.00%''"
  by (simp add: success_rate_def)

lemma success_rate_no_success:
  assumes "0 < t" "t < 2 ^ 1023" "t = e + f + s"
  shows "success_rate t e f s = Inr ''0.00%''"
proof -
  have "t \<noteq> 0" "\<bar>t\<bar> < 2 ^ 1023" using assms(1,2) by simp_all
  then obtain num d where b: "int_to_float t = Inr (Finite (t < 0) num d)" and "2 ^ d \<le> num"
    using int_to_float_finite [of t] by blast
  have "0 < (2::nat) ^ d" by simp
  then have "num \<noteq> 0" using \<open>2 ^ d \<le> num\<close> by linarith
  moreover have "t - (e + f + s) = 0" using assms(3) by simp
  ultimately show ?thesis
    using assms(1) b
    by (simp add: success_rate_def zero_float hundred_def round_double_def format_2f_zero
        del: format_2f.simps)
qed

lemma success_rate_finite:
  assumes "t \<noteq> 0" "\<bar>t\<bar> < 2 ^ 1000" "\<bar>t - (e + f + s)\<bar> < 2 ^ 1000"
  shows "\<exists>a b num dexp.
           int_to_float (t - (e + f + s)) = Inr a \<and> int_to_float t = Inr b \<and>
           fdiv (fmul a hundred) b = Inr (Finite ((t - (e + f + s) < 0) \<noteq> (t < 0)) num dexp) \<and>
           success_rate t e f s =
             Inr (format_2f (Finite ((t - (e + f + s) < 0) \<noteq> (t < 0)) num dexp) @ ''%'')"
proof -
  define n where "n = t - (e + f + s)"
  define N where "N = nat \<bar>n\<bar>"
  have big: "(2::int) ^ 1000 \<le> 2 ^ 1023" by (intro power_increasing) simp_all
  have N: "N < 2 ^ 1000" using assms(3) unfolding N_def n_def by (simp add: nat_less_iff)
  have "(400::nat) * 2 ^ 1000 \<le> 2 ^ 1023" by simp
  then have N400: "400 * N < 2 ^ 1023" using N by linarith
  then have N200: "200 * N < 2 ^ 1023" by linarith
  have "\<bar>t\<bar> < 2 ^ 1023" using assms(2) big by linarith
  then obtain nb db where b: "int_to_float t = Inr (Finite (t < 0) nb db)"
    and nb: "2 ^ db \<le> nb"
    using int_to_float_finite [OF assms(1)] by blast
  have nb0: "0 < nb" using nb by (simp add: Suc_le_eq less_le_trans [of 0 "2 ^ db" nb])
  have "\<exists>x y. fdiv (fmul (case int_to_float n of Inr a \<Rightarrow> a | Inl x \<Rightarrow> NaN) hundred)
                  (Finite (t < 0) nb db) = Inr (Finite ((n < 0) \<noteq> (t < 0)) x y) \<and>
               (\<exists>a. int_to_float n = Inr a)"
  proof (cases "n = 0")
    case True
    then show ?thesis
      using nb0 by (simp add: zero_float hundred_def round_double_def)
  next
    case False
    have "\<bar>n\<bar> < 2 ^ 1023" using assms(3) big unfolding n_def by linarith
    then obtain na da where a: "int_to_float n = Inr (Finite (n < 0) na da)"
      and na1: "2 ^ da \<le> na" and na2: "na \<le> 2 * N * 2 ^ da"
      using int_to_float_finite [OF False] unfolding N_def by blast
    have "na * 100 < 2 ^ 1023 * 2 ^ da"
      using na2 N200 by (rule scale_bound1) simp
    then obtain nA dA where A: "round_double (n < 0) (na * 100) (2 ^ da) = Finite (n < 0) nA dA"
      and nA: "nA * 2 ^ da \<le> 2 * (na * 100) * 2 ^ dA"
      using round_double_finite [of "2 ^ da" "na * 100" "n < 0"] by auto
    have nA': "nA \<le> 400 * N * 2 ^ dA" using nA na2 by (rule scale_cancel) simp
    have "nA * 2 ^ db < 2 ^ 1023 * (nb * 2 ^ dA)"
      using nA' nb N400 _ nb0 by (rule scale_bound2) simp
    then obtain x y where
      R: "round_double ((n < 0) \<noteq> (t < 0)) (nA * 2 ^ db) (nb * 2 ^ dA)
            = Finite ((n < 0) \<noteq> (t < 0)) x y"
      using round_double_finite [of "nb * 2 ^ dA" "nA * 2 ^ db" "(n < 0) \<noteq> (t < 0)"] nb0
      by auto
    show ?thesis
      using a A R nb0 by (simp add: hundred_def)
  qed
  then obtain x y a where r: "fdiv (fmul a hundred) (Finite (t < 0) nb db)
        = Inr (Finite ((n < 0) \<noteq> (t < 0)) x y)" and a: "int_to_float n = Inr a"
    by auto
  have "success_rate t e f s = Inr (format_2f (Finite ((n < 0) \<noteq> (t < 0)) x y) @ ''%'')"
    using assms(1) a b r
    by (simp add: success_rate_def n_def [symmetric] del: format_2f.simps fdiv.simps fmul.simps)
  then show ?thesis
    using a b r unfolding n_def by blast
qed

lemma success_rate_shape:
  assumes "t \<noteq> 0" "\<bar>t\<bar> < 2 ^ 1000" "\<bar>t - (e + f + s)\<bar> < 2 ^ 1000"
  shows "\<exists>ds c1 c2.
           success_rate t e f s =
             Inr ((if (t - (e + f + s) < 0) \<noteq> (t < 0) then ''-'' else []) @ ds @ ''.''
                  @ [c1, c2] @ ''%'') \<and>
           ds \<noteq> [] \<and> set ds \<subseteq> set ''0123456789'' \<and>
           c1 \<in> set ''0123456789'' \<and> c2 \<in> set ''0123456789''"
proof -
  obtain num dexp where
    "success_rate t e f s =
       Inr (format_2f (Finite ((t - (e + f + s) < 0) \<noteq> (t < 0)) num dexp) @ ''%'')"
    using success_rate_finite [OF assms] by blast
  then show ?thesis
    using format_2f_shape [of "(t - (e + f + s) < 0) \<noteq> (t < 0)" num dexp] by auto
qed

lemma success_rate_rounds_to_zero: "success_rate 100000 99999 0 0 = Inr ''0.00%''"
  by (simp add: success_rate_def int_to_float_def round_double_def round_ratio_def
      ulp_exponent_def overflows_def round_half_even_def Let_def digit_char_def hundred_def
      bitlen.simps decimal.simps)

lemma success_rate_87_50: "success_rate 8 1 0 0 = Inr ''87.50%''"
  by (simp add: success_rate_def int_to_float_def round_double_def round_ratio_def
      ulp_exponent_def overflows_def round_half_even_def Let_def digit_char_def hundred_def
      bitlen.simps decimal.simps)

lemma success_rate_negative: "success_rate 2 3 0 0 = Inr ''-50.00%''"
  by (simp add: success_rate_def int_to_float_def round_double_def round_ratio_def
      ulp_exponent_def overflows_def round_half_even_def Let_def digit_char_def hundred_def
      bitlen.simps decimal.simps)


lemma bitlen_power2: "bitlen (2 ^ k) = Suc k"
proof (induction k)
  case 0
  then show ?case by (simp add: bitlen_Suc_0)
next
  case (Suc k)
  have "bitlen (2 ^ Suc k) = Suc (bitlen (2 ^ Suc k div 2))"
    by (subst bitlen.simps) simp
  then show ?case using Suc by simp
qed

lemma ulp_exponent_2_1024: "ulp_exponent (2 ^ 1024) (Suc 0) = 972"
proof -
  have "(2::nat) ^ 1024 div 2 ^ 971 = 2 ^ 53"
    by (simp add: power_diff [symmetric] del: power_numeral)
  then show ?thesis
    by (simp add: ulp_exponent_def Let_def bitlen_power2 bitlen_Suc_0 del: power_numeral)
qed

lemma int_to_float_2_1024: "int_to_float (2 ^ 1024) = Inl OverflowError"
proof -
  have d: "(2::nat) ^ 1024 div 2 ^ 972 = 2 ^ 52" "(2::nat) ^ 1024 mod 2 ^ 972 = 0"
    by (simp_all add: power_diff [symmetric] mod_eq_0_iff_dvd le_imp_power_dvd del: power_numeral)
  have "round_half_even (2 ^ 1024) (2 ^ 972) = 2 ^ 52"
    using d by (simp add: round_half_even_def Let_def del: power_numeral)
  moreover have "(2::nat) ^ 52 * 2 ^ 972 = 2 ^ 1024"
    by (simp add: power_add [symmetric] del: power_numeral)
  ultimately have "round_ratio (2 ^ 1024) (Suc 0) = (2 ^ 1024, 0)"
    by (simp add: round_ratio_def ulp_exponent_2_1024 Let_def del: power_numeral)
  then have "overflows (round_ratio (2 ^ 1024) (Suc 0))"
    by (simp add: overflows_def del: power_numeral)
  moreover have n: "nat (2 ^ 1024 :: int) = 2 ^ 1024"
    by (simp add: nat_power_eq del: power_numeral)
  ultimately show ?thesis
    by (simp add: int_to_float_def round_double_def Let_def n del: power_numeral)
qed

lemma success_rate_overflow: "success_rate (2 ^ 1024) (2 ^ 1024) 0 0 = Inl OverflowError"
proof -
  have "(2::int) ^ 1024 \<noteq> 0" by simp
  then show ?thesis
    by (simp add: success_rate_def zero_float int_to_float_2_1024 del: power_numeral)
qed


text \<open>
  C2, as the code has it. With no tests \<^verbatim>\<open>success_rate\<close> returns \<^verbatim>\<open>0.00%\<close>. With a
  nonzero test count, and counts below \<open>2 ^ 1000\<close> in magnitude, it returns the double
  \<^verbatim>\<open>(tests - errors - failures - skipped) * 100.0 / tests\<close> printed as digits, a point,
  exactly two decimals and \<^verbatim>\<open>%\<close>, with a minus sign exactly when the difference and the
  test count have opposite signs: a negative rate is printed as it is. For a positive test
  count below \<open>2 ^ 1023\<close> the result is \<^verbatim>\<open>0.00%\<close> if the tests are all errors, failures
  or skipped.
\<close>

theorem success_rate_format:
  "success_rate 0 e f s = Inr ''0.00%'' \<and>
   (t \<noteq> 0 \<and> \<bar>t\<bar> < 2 ^ 1000 \<and> \<bar>t - (e + f + s)\<bar> < 2 ^ 1000
      \<longrightarrow> (\<exists>a b num dexp.
             int_to_float (t - (e + f + s)) = Inr a \<and> int_to_float t = Inr b \<and>
             fdiv (fmul a hundred) b
               = Inr (Finite ((t - (e + f + s) < 0) \<noteq> (t < 0)) num dexp) \<and>
             success_rate t e f s =
               Inr (format_2f (Finite ((t - (e + f + s) < 0) \<noteq> (t < 0)) num dexp) @ ''%''))) \<and>
   (t \<noteq> 0 \<and> \<bar>t\<bar> < 2 ^ 1000 \<and> \<bar>t - (e + f + s)\<bar> < 2 ^ 1000
      \<longrightarrow> (\<exists>ds c1 c2.
             success_rate t e f s =
               Inr ((if (t - (e + f + s) < 0) \<noteq> (t < 0) then ''-'' else []) @ ds @ ''.''
                    @ [c1, c2] @ ''%'') \<and>
             ds \<noteq> [] \<and> set ds \<subseteq> set ''0123456789'' \<and>
             c1 \<in> set ''0123456789'' \<and> c2 \<in> set ''0123456789'')) \<and>
   (0 < t \<and> t < 2 ^ 1023 \<and> t = e + f + s \<longrightarrow> success_rate t e f s = Inr ''0.00%'')"
  using success_rate_zero_tests [of e f s] success_rate_shape [of t e f s]
    success_rate_no_success [of t e f s] success_rate_finite [of t e f s]
  by blast

theorem success_rate_format_witness:
  "success_rate 0 0 0 0 = Inr ''0.00%'' \<and>
   success_rate 8 1 0 0 = Inr ''87.50%'' \<and>
   success_rate 2 3 0 0 = Inr ''-50.00%'' \<and>
   success_rate 5 2 2 1 = Inr ''0.00%''"
  using success_rate_format [where t = 8 and e = 1 and f = 0 and s = 0]
    success_rate_format [where t = 2 and e = 3 and f = 0 and s = 0]
    success_rate_format [where t = 5 and e = 2 and f = 2 and s = 1]
    success_rate_format [where t = 0 and e = 0 and f = 0 and s = 0]
  by (simp add: success_rate_87_50 success_rate_negative)

text \<open>
  C2 as stated fails. With 100000 tests of which 99999 are errors the rate 0.001 is
  printed \<^verbatim>\<open>0.00%\<close>, though one test succeeded: \<^verbatim>\<open>0.00%\<close> does not mean that no test
  succeeded. And with \<open>2 ^ 1024\<close> tests the conversion to float raises OverflowError, so
  no string is returned.
\<close>

theorem success_rate_iff_counterexample:
  "success_rate 100000 99999 0 0 = Inr ''0.00%'' \<and>
   (100000::int) \<noteq> 99999 + 0 + 0 \<and>
   success_rate (2 ^ 1024) (2 ^ 1024) 0 0 = Inl OverflowError"
  using success_rate_rounds_to_zero success_rate_overflow by simp

lemma success_rate_returns:
  assumes "\<bar>t\<bar> < 2 ^ 1000" "\<bar>t - (e + f + s)\<bar> < 2 ^ 1000"
  shows "\<exists>r. success_rate t e f s = Inr r"
proof (cases "t = 0")
  case True
  then show ?thesis by (simp add: success_rate_zero_tests)
next
  case False
  then show ?thesis using success_rate_shape [OF False assms] by blast
qed

lemma map_as_dict_cases:
  "map_as_dict (map Case cs) = Inr (map (\<lambda>c. CaseDict (ReportTestCase_as_dict c)) cs)"
  by (induction cs) simp_all

lemma map_as_dict_dicts:
  "map_as_dict (map (\<lambda>c. CaseDict (g c)) cs) = (if cs = [] then Inr [] else Inl AttributeError)"
  by (cases cs) simp_all

text \<open>
  C9, as the code has it. Take a suite as \<^verbatim>\<open>__init__\<close> leaves it: no \<^verbatim>\<open>success\<close> entry and
  a list of case objects. Whenever \<^verbatim>\<open>success_rate\<close> returns for its counts, \<^verbatim>\<open>as_dict\<close>
  returns, and what it returns is the suite's own new state: the suite is changed, it now
  has the entries \<^verbatim>\<open>success\<close> and \<^verbatim>\<open>icon_class\<close>, and its \<^verbatim>\<open>testcases\<close> is the list of the
  cases' display dicts. A second \<^verbatim>\<open>as_dict\<close> works on that converted list: it raises
  AttributeError at the first display dict, and returns the same state when the list is
  empty. \<^verbatim>\<open>success_rate\<close> returns when the counts are below \<open>2 ^ 1000\<close> in magnitude. When
  it raises, \<^verbatim>\<open>as_dict\<close> raises the same exception and the suite is unchanged.
\<close>

theorem as_dict_changes_suite:
  assumes "ts_success self = None"
    and "ts_testcases self = map Case cs"
  shows "(success_rate (ts_tests self) (ts_errors self) (ts_failures self) (ts_skipped self)
            = Inr sr \<and>
          self' = self
             \<lparr>ts_testcases := map (\<lambda>c. CaseDict (ReportTestCase_as_dict c)) cs,
              ts_success := Some sr,
              ts_icon_class := Some (ReportTestSuite_icon_class (ts_tests self) (ts_errors self)
                                       (ts_failures self) (ts_skipped self))\<rparr>
          \<longrightarrow> ReportTestSuite_as_dict self = (Inr self', self') \<and> self' \<noteq> self \<and>
              ReportTestSuite_as_dict self' =
                (if cs = [] then (Inr self', self') else (Inl AttributeError, self'))) \<and>
         (\<bar>ts_tests self\<bar> < 2 ^ 1000 \<and>
          \<bar>ts_tests self - (ts_errors self + ts_failures self + ts_skipped self)\<bar> < 2 ^ 1000
          \<longrightarrow> (\<exists>r. success_rate (ts_tests self) (ts_errors self) (ts_failures self)
                      (ts_skipped self) = Inr r)) \<and>
         (success_rate (ts_tests self) (ts_errors self) (ts_failures self) (ts_skipped self)
            = Inl x
          \<longrightarrow> ReportTestSuite_as_dict self = (Inl x, self))"
proof -
  have 1: "success_rate (ts_tests self) (ts_errors self) (ts_failures self) (ts_skipped self)
            = Inr sr \<and>
          self' = self
             \<lparr>ts_testcases := map (\<lambda>c. CaseDict (ReportTestCase_as_dict c)) cs,
              ts_success := Some sr,
              ts_icon_class := Some (ReportTestSuite_icon_class (ts_tests self) (ts_errors self)
                                       (ts_failures self) (ts_skipped self))\<rparr>
          \<longrightarrow> ReportTestSuite_as_dict self = (Inr self', self') \<and> self' \<noteq> self \<and>
              ReportTestSuite_as_dict self' =
                (if cs = [] then (Inr self', self') else (Inl AttributeError, self'))"
  proof (intro impI, elim conjE)
    assume sr: "success_rate (ts_tests self) (ts_errors self) (ts_failures self)
        (ts_skipped self) = Inr sr"
      and self': "self' = self
             \<lparr>ts_testcases := map (\<lambda>c. CaseDict (ReportTestCase_as_dict c)) cs,
              ts_success := Some sr,
              ts_icon_class := Some (ReportTestSuite_icon_class (ts_tests self) (ts_errors self)
                                       (ts_failures self) (ts_skipped self))\<rparr>"
    have a: "ReportTestSuite_as_dict self = (Inr self', self')"
      using sr assms(2)
      by (simp add: ReportTestSuite_as_dict_def Let_def map_as_dict_cases self')
    have "ts_success self' \<noteq> ts_success self" using assms(1) by (simp add: self')
    then have b: "self' \<noteq> self" by auto
    have c: "ReportTestSuite_as_dict self' =
             (if cs = [] then (Inr self', self') else (Inl AttributeError, self'))"
      using sr
      by (simp add: ReportTestSuite_as_dict_def Let_def map_as_dict_dicts self')
    show "ReportTestSuite_as_dict self = (Inr self', self') \<and> self' \<noteq> self \<and>
              ReportTestSuite_as_dict self' =
                (if cs = [] then (Inr self', self') else (Inl AttributeError, self'))"
      using a b c by blast
  qed
  have 2: "\<bar>ts_tests self\<bar> < 2 ^ 1000 \<and>
          \<bar>ts_tests self - (ts_errors self + ts_failures self + ts_skipped self)\<bar> < 2 ^ 1000
          \<longrightarrow> (\<exists>r. success_rate (ts_tests self) (ts_errors self) (ts_failures self)
                      (ts_skipped self) = Inr r)"
    using success_rate_returns by blast
  have 3: "success_rate (ts_tests self) (ts_errors self) (ts_failures self) (ts_skipped self)
            = Inl x
          \<longrightarrow> ReportTestSuite_as_dict self = (Inl x, self)"
    by (simp add: ReportTestSuite_as_dict_def)
  show ?thesis using 1 2 3 by blast
qed

theorem as_dict_changes_suite_witness:
  "ReportTestSuite_as_dict sample_suite = (Inr sample_suite_dict, sample_suite_dict) \<and>
   sample_suite_dict \<noteq> sample_suite \<and>
   ReportTestSuite_as_dict sample_suite_dict = (Inl AttributeError, sample_suite_dict)"
proof -
  let ?c = "\<lparr>tc_name = ''b'', tc_time = Finite False 3 1,
               tc_failure = Some \<lparr>ftype = ''X'', message = Some ''msg''\<rparr>,
               tc_error = None, tc_skipped = False\<rparr>"
  have sr: "success_rate 1 0 1 0 = Inr ''0.00%''"
    by (rule success_rate_no_success) simp_all
  have d: "ReportTestCase_as_dict ?c =
      \<lparr>cd_name = ''b'', cd_time = Finite False 3 1,
       cd_icon_class = ''test-failure'', cd_message = Some (Some ''msg'')\<rparr>"
    by (simp add: ReportTestCase_as_dict_def ReportTestCase_icon_class_def truthy_def)
  have i: "ReportTestSuite_icon_class 1 0 1 0 = ''test-failure''"
    by (simp add: ReportTestSuite_icon_class_def)
  have a: "ts_success sample_suite = None" "ts_testcases sample_suite = map Case [?c]"
    by (simp_all add: sample_suite_def)
  show ?thesis
    using as_dict_changes_suite [OF a, of "''0.00%''" sample_suite_dict] sr d i
    by (simp add: sample_suite_def sample_suite_dict_def)
qed

text \<open>
  C9 as stated fails for a suite whose counts are too large for a float: with
  \<open>2 ^ 1024\<close> tests \<^verbatim>\<open>success_rate\<close> raises OverflowError before anything is assigned, so
  \<^verbatim>\<open>as_dict\<close> raises and leaves the suite unchanged.
\<close>

theorem as_dict_overflow_counterexample:
  "ReportTestSuite_as_dict sample_huge_suite = (Inl OverflowError, sample_huge_suite)"
  by (simp add: ReportTestSuite_as_dict_def sample_huge_suite_def success_rate_overflow
      del: power_numeral)

section \<open>A complete run\<close>

text \<open>
  For contrast with the failing runs: on a directory whose one file parses, \<^verbatim>\<open>report()\<close>
  sorts the two suites (the one with a failure first), creates the directory, replaces
  the old report by the rendered text and returns the path.
\<close>

lemma sample_root_sorted:
  "parse_xml_files sample_builtins [(''TEST-a.xml'', Document sample_root)] =
     Inr [\<lparr>ts_name = ''s2'', ts_tests = 1, ts_errors = 0, ts_failures = 1, ts_skipped = 0,
           ts_time = Finite False 3 1,
           ts_testcases =
             [Case \<lparr>tc_name = ''a'', tc_time = Finite False 0 0, tc_failure = None,
                    tc_error = None, tc_skipped = False\<rparr>,
              Case \<lparr>tc_name = ''b'', tc_time = Finite False 3 1,
                    tc_failure = Some \<lparr>ftype = ''X'', message = Some ''msg''\<rparr>,
                    tc_error = None, tc_skipped = False\<rparr>],
           ts_success = None, ts_icon_class = None\<rparr>,
          \<lparr>ts_name = ''s1'', ts_tests = 1, ts_errors = 0, ts_failures = 0, ts_skipped = 0,
           ts_time = Finite False 3 1,
           ts_testcases =
             [Case \<lparr>tc_name = ''a'', tc_time = Finite False 0 0, tc_failure = None,
                    tc_error = None, tc_skipped = False\<rparr>,
              Case \<lparr>tc_name = ''b'', tc_time = Finite False 3 1,
                    tc_failure = Some \<lparr>ftype = ''X'', message = Some ''msg''\<rparr>,
                    tc_error = None, tc_skipped = False\<rparr>],
           ts_success = None, ts_icon_class = None\<rparr>]"
  by (simp add: parse_xml_files_def glob_TEST_xml_def glob_sample sample_root_parse
      sort_suites_def suite_lt_def tuple_gt_def)

lemma round_ratio_3_2: "round_ratio 3 2 = (6755399441055744, 52)"
  by (simp add: round_ratio_def ulp_exponent_def round_half_even_def Let_def bitlen.simps)

lemma fadd_0_15: "fadd (Finite False 0 0) (Finite False 3 (Suc 0)) = Finite False 6755399441055744 52"
  by (simp add: round_double_def round_ratio_3_2 overflows_def Let_def)

lemma round_ratio_3: "round_ratio (6755399441055744 * 2 + 3 * 2 ^ 52) (2 ^ 53) = (6755399441055744, 51)"
  by (simp add: round_ratio_def ulp_exponent_def round_half_even_def Let_def bitlen.simps)

lemma fadd_15_15:
  "fadd (Finite False 6755399441055744 52) (Finite False 3 (Suc 0)) = Finite False 6755399441055744 51"
  using round_ratio_3 by (simp add: round_double_def overflows_def Let_def)

lemma totals_sample:
  "totals_loop (0, 0, 0, 0, Finite False 0 0)
     [\<lparr>ts_name = n2, ts_tests = 1, ts_errors = 0, ts_failures = 1, ts_skipped = 0,
           ts_time = Finite False 3 (Suc 0), ts_testcases = cs,
           ts_success = None, ts_icon_class = None\<rparr>,
      \<lparr>ts_name = n1, ts_tests = 1, ts_errors = 0, ts_failures = 0, ts_skipped = 0,
           ts_time = Finite False 3 (Suc 0), ts_testcases = cs,
           ts_success = None, ts_icon_class = None\<rparr>]
   = (2, 0, 1, 0, Finite False 6755399441055744 51)"
  by (simp add: fadd_0_15 fadd_15_15 del: fadd.simps)


lemma report_sample_success:
  "report sample_builtins sample_render ''out''
     \<lparr>xml_dir = [(''TEST-a.xml'', Document sample_root)],
      report_dir_exists = False, report_file = Some ''old report'', writable = True\<rparr>
   = (Inr ''out/reports/junit-report.html'',
      \<lparr>xml_dir = [(''TEST-a.xml'', Document sample_root)],
       report_dir_exists = True, report_file = Some ''<html/>'', writable = True\<rparr>)"
proof -
  obtain r where r: "success_rate 2 0 1 0 = Inr r"
    using success_rate_returns [of 2 0 1 0] by auto
  obtain r2 where r2: "success_rate 1 0 1 0 = Inr r2"
    using success_rate_returns [of 1 0 1 0] by auto
  obtain r1 where r1: "success_rate 1 0 0 0 = Inr r1"
    using success_rate_returns [of 1 0 0 0] by auto
  show ?thesis
    by (simp add: report_def sample_root_sorted generate_html_def totals_sample
        r r1 r2 ReportTestSuite_as_dict_def Let_def
        sample_render_def report_file_path_def path_join_def safe_mkdir_for_def open_wb_def
        del: totals_loop.simps)
qed

end
